theory Spec2Isabelle
  imports Complex_Main
begin

section \<open>SwipeableListItem: the class component of react-swipeable-list\<close>

text \<open>
  A shallow embedding of the class \<^verbatim>\<open>SwipeableListItem\<close>. JavaScript numbers are real
  numbers (there is no NaN and no infinity), \<^verbatim>\<open>offsetWidth\<close> is a natural number of
  pixels, and a DOM element is a plain store of the fields the component reads and writes:
  a field returns what was last assigned to it. Callbacks of the caller are opaque; each
  invocation is appended to the field \<open>calls\<close> of the state. An exception thrown inside a
  handler is a value: the handler returns \<open>Inl\<close> of the error and of the state as it was
  when the exception left the handler.

  The code computes in IEEE doubles, which round after every operation. Where the component
  turns a number into a string or an integer, in the opacity and the progress of
  \<^verbatim>\<open>updatePosition\<close>, the operations that lead to it are rounded here as they are in the
  code, by the function \<open>fl\<close>. Elsewhere the arithmetic is exact: in the differences of
  coordinates, the products with the thresholds and the angle of a movement.
\<close>

subsection \<open>Data\<close>

datatype DragDirection = UP | DOWN | LEFT | RIGHT | UNKNOWN

text \<open>
  The three values of the object \<^verbatim>\<open>ActionAnimations\<close>, which are symbols.
  \<^verbatim>\<open>playActionAnimation\<close> treats every value other than the symbols \<open>REMOVE\<close> and \<open>NONE\<close>
  as \<open>RETURN\<close>: an absent one, and also the numbers of the enum \<^verbatim>\<open>ActionAnimationsEnum\<close>
  that the props are typed with. In the props an \<open>actionAnimation\<close> that is none of the
  three symbols is \<open>None\<close>.
\<close>

datatype ActionAnimations = RETURN | REMOVE | NONE

datatype Transform = NoTransform | TranslateX real

datatype error = TypeError

text \<open>
  What the component invokes outside itself: the callbacks of the props, the two actions,
  and the two methods of the input event.
\<close>

datatype Call =
    OnSwipeStart
  | OnSwipeEnd
  | OnSwipeProgress int
  | SwipeLeftAction
  | SwipeRightAction
  | StopPropagation
  | PreventDefault

text \<open>
  A callback is given or not; \<open>action\<close>, \<open>onSwipeStart\<close>, \<open>onSwipeEnd\<close> and
  \<open>onSwipeProgress\<close> say whether it is. An optional prop that is a number or an object is an
  \<open>option\<close>.
\<close>

record SwipeAction =
  action :: bool
  actionAnimation :: "ActionAnimations option"

record Props =
  blockSwipe :: bool
  swipeLeft :: "SwipeAction option"
  swipeRight :: "SwipeAction option"
  scrollStartThreshold :: "real option"
  swipeStartThreshold :: "real option"
  threshold :: "real option"
  onSwipeStart :: bool
  onSwipeEnd :: bool
  onSwipeProgress :: bool

record Element =
  className :: string
  opacity :: string
  transform :: Transform
  offsetWidth :: nat

text \<open>
  The fields of the instance, the refs among them, and with them the part of the browser the
  component talks to: the callbacks requested with \<^verbatim>\<open>requestAnimationFrame\<close> and not run yet
  (\<open>frameCallbacks\<close>, by their handles), the next handle, and the invocations made so far.
  \<^verbatim>\<open>startTime\<close> is \<^verbatim>\<open>null\<close> until the first drag starts; in a subtraction \<^verbatim>\<open>null\<close> is 0.
\<close>

record State =
  contentLeft :: "Element option"
  contentRight :: "Element option"
  listElement :: "Element option"
  requestedAnimationFrame :: "nat option"
  startTime :: "real option"
  previousSwipeDistancePercent :: int
  dragStartPoint :: "real \<times> real"
  dragDirection :: DragDirection
  left :: real
  frameCallbacks :: "nat list"
  nextHandle :: nat
  calls :: "Call list"

type_synonym outcome = "(error \<times> State) + State"

datatype Side = ContentLeft | ContentRight

text \<open>
  The events the component listens to: the start of a drag at a point and a time (mouse down
  or touch start), a mouse move, a touch move with its flag \<^verbatim>\<open>cancelable\<close>, the end of a
  drag (mouse up or touch end), and an animation frame with the two times its callback reads
  from the clock.
\<close>

datatype Event =
    DragStart real real real
  | MouseMove real real
  | TouchMove real real bool
  | DragEnd
  | AnimationFrame real real

subsection \<open>The class names the component assigns\<close>

definition class_content :: string where
  "class_content = ''swipeable-list-item__content''"

definition class_content_left :: string where
  "class_content_left = ''swipeable-list-item__content-left''"

definition class_content_right :: string where
  "class_content_right = ''swipeable-list-item__content-right''"

definition class_content_return :: string where
  "class_content_return = ''swipeable-list-item__content swipeable-list-item__content--return''"

definition class_content_remove :: string where
  "class_content_remove = ''swipeable-list-item__content swipeable-list-item__content--remove''"

definition class_content_left_return :: string where
  "class_content_left_return =
     ''swipeable-list-item__content-left swipeable-list-item__content-left--return''"

definition class_content_right_return :: string where
  "class_content_right_return =
     ''swipeable-list-item__content-right swipeable-list-item__content-right--return''"

subsection \<open>Platform functions\<close>

definition FPS_INTERVAL :: real where
  "FPS_INTERVAL = 1000 / 60"

text \<open>\<^verbatim>\<open>Math.round\<close>: the nearest integer, a tie going up.\<close>

definition Math_round :: "real \<Rightarrow> int" where
  "Math_round v = \<lfloor>v + 1 / 2\<rfloor>"

text \<open>
  The double nearest to a real number, a tie going to the neighbour whose last bit is 0 (IEEE
  754, binary64, round to nearest even). Around \<open>x\<close> the doubles are \<open>ulp x\<close> apart: for
  \<open>2\<^sup>e \<le> |x| < 2\<^sup>e\<^sup>+\<^sup>1\<close> they are the multiples of 2 to the power \<open>e - 52\<close>, and below 2 to
  the power -1022 those of 2 to the power -1074. The result of an operation of JavaScript
  on numbers is \<open>fl\<close> of the exact result. A result of 2 to the power 1024 or more, which
  JavaScript rounds to an infinity, does not occur where \<open>fl\<close> is used below: a quotient by
  100, a difference with a width, a product of 100 and at most a width, and its quotient by
  the width.
\<close>

definition round_half_even :: "real \<Rightarrow> int" where
  "round_half_even y =
     (if y - of_int \<lfloor>y\<rfloor> < 1 / 2 then \<lfloor>y\<rfloor>
      else if 1 / 2 < y - of_int \<lfloor>y\<rfloor> then \<lfloor>y\<rfloor> + 1
      else if even \<lfloor>y\<rfloor> then \<lfloor>y\<rfloor> else \<lfloor>y\<rfloor> + 1)"

definition ulp :: "real \<Rightarrow> real" where
  "ulp x = 2 powr (of_int (max \<lfloor>log 2 \<bar>x\<bar>\<rfloor> (- 1022)) - 52)"

definition fl :: "real \<Rightarrow> real" where
  "fl x = (if x = 0 then 0 else of_int (round_half_even (x / ulp x)) * ulp x)"

text \<open>\<^verbatim>\<open>Math.atan2(y, x)\<close>, by the quadrant of the point, and 0 at the origin.\<close>

definition Math_atan2 :: "real \<Rightarrow> real \<Rightarrow> real" where
  "Math_atan2 y x =
     (if 0 < x then arctan (y / x)
      else if x < 0 then (if 0 \<le> y then arctan (y / x) + pi else arctan (y / x) - pi)
      else if 0 < y then pi / 2
      else if y < 0 then - (pi / 2)
      else 0)"

text \<open>The remainder \<^verbatim>\<open>%\<close> of JavaScript takes the sign of the dividend.\<close>

definition js_rem :: "int \<Rightarrow> int \<Rightarrow> int" where
  "js_rem a b = sgn a * (\<bar>a\<bar> mod \<bar>b\<bar>)"

fun decimal :: "nat \<Rightarrow> string" where
  "decimal n = (if n < 10 then [''0123456789'' ! n]
                else decimal (n div 10) @ [''0123456789'' ! (n mod 10)])"

text \<open>
  \<^verbatim>\<open>x.toFixed(2)\<close> for \<open>x \<ge> 0\<close>: the integer number of hundredths nearest to \<open>x\<close>
  (the larger one at a tie), printed with two decimals. \<open>hundredths\<close> is that integer,
  the number the string converts back to in a comparison, times 100. \<^verbatim>\<open>toFixed\<close> works
  on the exact value of the double it is applied to; the component applies it to the double
  \<open>opacityOf\<close> below, the rounded quotient of the offset by 100.
\<close>

definition hundredths :: "real \<Rightarrow> nat" where
  "hundredths x = nat \<lfloor>x * 100 + 1 / 2\<rfloor>"

definition toFixed2 :: "real \<Rightarrow> string" where
  "toFixed2 x =
     decimal (hundredths x div 100) @ ''.'' @
     [''0123456789'' ! (hundredths x mod 100 div 10), ''0123456789'' ! (hundredths x mod 10)]"

subsection \<open>The component\<close>

definition resetState :: "State \<Rightarrow> State" where
  "resetState s =
     s\<lparr>dragStartPoint := (-1, -1), dragDirection := UNKNOWN, left := 0,
       previousSwipeDistancePercent := 0\<rparr>"

text \<open>\<^verbatim>\<open>this.props.swipeStartThreshold || 10\<close>: an absent prop and the number 0 are falsy.\<close>

definition dragHorizontalDirectionThreshold :: "Props \<Rightarrow> real" where
  "dragHorizontalDirectionThreshold p =
     (case swipeStartThreshold p of None \<Rightarrow> 10 | Some v \<Rightarrow> if v = 0 then 10 else v)"

definition dragVerticalDirectionThreshold :: "Props \<Rightarrow> real" where
  "dragVerticalDirectionThreshold p =
     (case scrollStartThreshold p of None \<Rightarrow> 10 | Some v \<Rightarrow> if v = 0 then 10 else v)"

definition dragStartedWithinItem :: "State \<Rightarrow> bool" where
  "dragStartedWithinItem s = (fst (dragStartPoint s) \<noteq> -1 \<and> snd (dragStartPoint s) \<noteq> -1)"

definition isSwiping :: "Props \<Rightarrow> State \<Rightarrow> bool" where
  "isSwiping p s =
     (\<not> blockSwipe p \<and> dragStartedWithinItem s \<and>
      (dragDirection s = LEFT \<or> dragDirection s = RIGHT))"

text \<open>
  \<^verbatim>\<open>requestAnimationFrame\<close> appends the callback to the browser's list and returns a fresh
  handle, which is positive and hence truthy.
\<close>

definition scheduleUpdatePosition :: "State \<Rightarrow> State" where
  "scheduleUpdatePosition s =
     (if requestedAnimationFrame s \<noteq> None then s
      else s\<lparr>requestedAnimationFrame := Some (nextHandle s),
             frameCallbacks := frameCallbacks s @ [nextHandle s],
             nextHandle := Suc (nextHandle s)\<rparr>)"

definition octant :: "real \<Rightarrow> real \<Rightarrow> real \<Rightarrow> real \<Rightarrow> int" where
  "octant x y startX startY =
     js_rem (Math_round ((8 * Math_atan2 (y - startY) (x - startX)) / (2 * pi) + 8)) 8"

definition classify :: "Props \<Rightarrow> State \<Rightarrow> real \<Rightarrow> real \<Rightarrow> DragDirection" where
  "classify p s x y =
     (let startX = fst (dragStartPoint s); startY = snd (dragStartPoint s);
          horizontalDistance = \<bar>x - startX\<bar>; verticalDistance = \<bar>y - startY\<bar>;
          oct = octant x y startX startY
      in if oct = 0 then
           (if contentRight s \<noteq> None \<and> horizontalDistance > dragHorizontalDirectionThreshold p
            then RIGHT else dragDirection s)
         else if oct = 1 \<or> oct = 2 \<or> oct = 3 then
           (if verticalDistance > dragVerticalDirectionThreshold p then DOWN else dragDirection s)
         else if oct = 4 then
           (if contentLeft s \<noteq> None \<and> horizontalDistance > dragHorizontalDirectionThreshold p
            then LEFT else dragDirection s)
         else if oct = 5 \<or> oct = 6 \<or> oct = 7 then
           (if verticalDistance > dragVerticalDirectionThreshold p then UP else dragDirection s)
         else dragDirection s)"

definition setDragDirection :: "Props \<Rightarrow> State \<Rightarrow> real \<Rightarrow> real \<Rightarrow> State" where
  "setDragDirection p s x y =
     (if dragDirection s = UNKNOWN then
        (if \<bar>x - fst (dragStartPoint s)\<bar> \<le> dragHorizontalDirectionThreshold p \<and>
            \<bar>y - snd (dragStartPoint s)\<bar> \<le> dragVerticalDirectionThreshold p
         then s
         else
           (let s1 = s\<lparr>dragDirection := classify p s x y\<rparr>
            in if onSwipeStart p \<and> isSwiping p s1 then s1\<lparr>calls := calls s1 @ [OnSwipeStart]\<rparr>
               else s1))
      else s)"

definition handleDragStart :: "State \<Rightarrow> real \<Rightarrow> real \<Rightarrow> real \<Rightarrow> outcome" where
  "handleDragStart s clientX clientY now =
     (if listElement s = None then
        Inl (TypeError, (resetState s)\<lparr>dragStartPoint := (clientX, clientY)\<rparr>)
      else
        Inr (scheduleUpdatePosition
          ((resetState s)\<lparr>
             dragStartPoint := (clientX, clientY),
             listElement := map_option (\<lambda>e. e\<lparr>className := class_content\<rparr>) (listElement s),
             contentLeft := map_option (\<lambda>e. e\<lparr>className := class_content_left\<rparr>) (contentLeft s),
             contentRight := map_option (\<lambda>e. e\<lparr>className := class_content_right\<rparr>) (contentRight s),
             startTime := Some now\<rparr>)))"

text \<open>The body of \<^verbatim>\<open>if (this.isSwiping())\<close> in both move handlers.\<close>

definition dragTo :: "State \<Rightarrow> real \<Rightarrow> State" where
  "dragTo s clientX =
     scheduleUpdatePosition
       (s\<lparr>calls := calls s @ [StopPropagation, PreventDefault],
          left := clientX - fst (dragStartPoint s)\<rparr>)"

definition handleMouseMove :: "Props \<Rightarrow> State \<Rightarrow> real \<Rightarrow> real \<Rightarrow> State" where
  "handleMouseMove p s clientX clientY =
     (if dragStartedWithinItem s then
        (if isSwiping p (setDragDirection p s clientX clientY)
         then dragTo (setDragDirection p s clientX clientY) clientX
         else setDragDirection p s clientX clientY)
      else s)"

text \<open>The touch event carries the coordinates of its first target touch and its flag
  \<^verbatim>\<open>cancelable\<close>.\<close>

definition handleTouchMove :: "Props \<Rightarrow> State \<Rightarrow> real \<Rightarrow> real \<Rightarrow> bool \<Rightarrow> State" where
  "handleTouchMove p s clientX clientY cancelable =
     (if dragStartedWithinItem s then
        (if \<not> cancelable then setDragDirection p s clientX clientY
         else if isSwiping p (setDragDirection p s clientX clientY)
         then dragTo (setDragDirection p s clientX clientY) clientX
         else setDragDirection p s clientX clientY)
      else s)"

text \<open>Every assignment to an element is guarded by the element's existence.\<close>

definition playReturnAnimation :: "State \<Rightarrow> State" where
  "playReturnAnimation s =
     s\<lparr>listElement :=
         map_option (\<lambda>e. e\<lparr>className := class_content_return, transform := TranslateX 0\<rparr>)
           (listElement s),
       contentLeft :=
         map_option (\<lambda>e. e\<lparr>opacity := ''0'', className := class_content_left_return\<rparr>)
           (contentLeft s),
       contentRight :=
         map_option (\<lambda>e. e\<lparr>opacity := ''0'', className := class_content_right_return\<rparr>)
           (contentRight s)\<rparr>"

definition playRemoveAnimation :: "DragDirection \<Rightarrow> State \<Rightarrow> State" where
  "playRemoveAnimation direction s =
     s\<lparr>listElement :=
         map_option (\<lambda>e. e\<lparr>className := class_content_remove,
                            transform := TranslateX (real (offsetWidth e) *
                                           (if direction = LEFT then -1 else 1))\<rparr>)
           (listElement s)\<rparr>"

definition playActionAnimation :: "ActionAnimations option \<Rightarrow> DragDirection \<Rightarrow> State \<Rightarrow> State" where
  "playActionAnimation type direction s =
     (if listElement s \<noteq> None then
        (case type of
           Some REMOVE \<Rightarrow> playRemoveAnimation direction s
         | Some NONE \<Rightarrow> s
         | _ \<Rightarrow> playReturnAnimation s)
      else s)"

definition handleSwipedLeft :: "Props \<Rightarrow> State \<Rightarrow> State" where
  "handleSwipedLeft p s =
     (case swipeLeft p of None \<Rightarrow> s
      | Some a \<Rightarrow> if action a then s\<lparr>calls := calls s @ [SwipeLeftAction]\<rparr> else s)"

definition handleSwipedRight :: "Props \<Rightarrow> State \<Rightarrow> State" where
  "handleSwipedRight p s =
     (case swipeRight p of None \<Rightarrow> s
      | Some a \<Rightarrow> if action a then s\<lparr>calls := calls s @ [SwipeRightAction]\<rparr> else s)"

text \<open>
  The part of \<^verbatim>\<open>handleDragEnd\<close> inside \<^verbatim>\<open>if (listElement)\<close>, for a list element
  \<open>w\<close> pixels wide: the state and the flag \<^verbatim>\<open>actionTriggered\<close>. Reading
  \<^verbatim>\<open>actionAnimation\<close> of an absent \<^verbatim>\<open>swipeLeft\<close> or \<^verbatim>\<open>swipeRight\<close> throws before
  anything is written. The trigger ratio is the prop \<^verbatim>\<open>threshold\<close>, 0.5 when absent.
\<close>

definition triggerRatio :: "Props \<Rightarrow> real" where
  "triggerRatio p = (case threshold p of None \<Rightarrow> 1 / 2 | Some v \<Rightarrow> v)"

definition triggerAction :: "Props \<Rightarrow> State \<Rightarrow> nat \<Rightarrow> (error \<times> State) + (State \<times> bool)" where
  "triggerAction p s w =
     (if left s < real w * triggerRatio p * (-1) then
        (case swipeLeft p of
           None \<Rightarrow> Inl (TypeError, s)
         | Some a \<Rightarrow>
             Inr (handleSwipedLeft p (playActionAnimation (actionAnimation a) LEFT s), True))
      else if left s > real w * triggerRatio p then
        (case swipeRight p of
           None \<Rightarrow> Inl (TypeError, s)
         | Some a \<Rightarrow>
             Inr (handleSwipedRight p (playActionAnimation (actionAnimation a) RIGHT s), True))
      else Inr (s, False))"

text \<open>The end of \<^verbatim>\<open>handleDragEnd\<close>: \<^verbatim>\<open>resetState\<close>, then the return animation unless an
  action was triggered.\<close>

definition finishDrag :: "State \<times> bool \<Rightarrow> State" where
  "finishDrag r =
     (if \<not> snd r then playReturnAnimation (resetState (fst r)) else resetState (fst r))"

definition notifySwipeEnd :: "Props \<Rightarrow> State \<times> bool \<Rightarrow> State \<times> bool" where
  "notifySwipeEnd p r =
     (if onSwipeEnd p then ((fst r)\<lparr>calls := calls (fst r) @ [OnSwipeEnd]\<rparr>, snd r) else r)"

definition handleDragEnd :: "Props \<Rightarrow> State \<Rightarrow> outcome" where
  "handleDragEnd p s =
     (if isSwiping p s then
        (case listElement s of
           None \<Rightarrow> Inr (finishDrag (notifySwipeEnd p (s, False)))
         | Some le \<Rightarrow>
             (case triggerAction p s (offsetWidth le) of
                Inl e \<Rightarrow> Inl e
              | Inr r \<Rightarrow> Inr (finishDrag (notifySwipeEnd p r))))
      else Inr (finishDrag (s, False)))"

definition onlyLeftContent :: "State \<Rightarrow> bool" where
  "onlyLeftContent s = (contentLeft s \<noteq> None \<and> contentRight s = None)"

definition onlyRightContent :: "State \<Rightarrow> bool" where
  "onlyRightContent s = (contentLeft s = None \<and> contentRight s \<noteq> None)"

definition panel :: "State \<Rightarrow> Side \<Rightarrow> Element option" where
  "panel s side = (case side of ContentLeft \<Rightarrow> contentLeft s | ContentRight \<Rightarrow> contentRight s)"

text \<open>Assigning \<^verbatim>\<open>style.opacity\<close> of a panel, guarded by the panel's existence.\<close>

definition setOpacity :: "Side \<Rightarrow> string \<Rightarrow> State \<Rightarrow> State" where
  "setOpacity side v s =
     (case side of
        ContentLeft \<Rightarrow> s\<lparr>contentLeft := map_option (\<lambda>e. e\<lparr>opacity := v\<rparr>) (contentLeft s)\<rparr>
      | ContentRight \<Rightarrow> s\<lparr>contentRight := map_option (\<lambda>e. e\<lparr>opacity := v\<rparr>) (contentRight s)\<rparr>)"

text \<open>
  The head of \<^verbatim>\<open>updatePosition\<close>: the offset \<^verbatim>\<open>this.left\<close> after the two clamping
  statements, and the panel the variable \<^verbatim>\<open>contentToShow\<close> refers to after them.
\<close>

definition clampLeft :: "State \<Rightarrow> State" where
  "clampLeft s =
     (let s1 = (if onlyLeftContent s \<and> left s > 0 then s\<lparr>left := 0\<rparr> else s)
      in if onlyRightContent s1 \<and> left s1 < 0 then s1\<lparr>left := 0\<rparr> else s1)"

definition contentToShow :: "State \<Rightarrow> Side" where
  "contentToShow s =
     (let c0 = (if left s < 0 then ContentLeft else ContentRight);
          c1 = (if onlyLeftContent s \<and> left s > 0 then ContentLeft else c0);
          s1 = (if onlyLeftContent s \<and> left s > 0 then s\<lparr>left := 0\<rparr> else s)
      in if onlyRightContent s1 \<and> left s1 < 0 then ContentRight else c1)"

text \<open>
  The progress value of \<^verbatim>\<open>updatePosition\<close>: the difference, the product and the quotient
  are each rounded to a double; \<^verbatim>\<open>Math.max\<close>, \<^verbatim>\<open>Math.round\<close> and the difference of two
  integers up to 100 are exact.
\<close>

definition swipeDistancePercent :: "State \<Rightarrow> nat \<Rightarrow> int" where
  "swipeDistancePercent s listElementWidth =
     (if listElementWidth \<noteq> 0 then
        100 - Math_round
          (fl (fl (100 * max 0 (fl (real listElementWidth - \<bar>left s\<bar>))) / real listElementWidth))
      else previousSwipeDistancePercent s)"

definition reportProgress :: "Props \<Rightarrow> State \<Rightarrow> State" where
  "reportProgress p s =
     (if onSwipeProgress p then
        (case listElement s of
           None \<Rightarrow> s
         | Some le \<Rightarrow>
             (if previousSwipeDistancePercent s \<noteq> swipeDistancePercent s (offsetWidth le) then
                s\<lparr>calls := calls s @ [OnSwipeProgress (swipeDistancePercent s (offsetWidth le))],
                  previousSwipeDistancePercent := swipeDistancePercent s (offsetWidth le)\<rparr>
              else s))
      else s)"

text \<open>The double \<^verbatim>\<open>Math.abs(this.left) / 100\<close>, for the offset \<open>l\<close>.\<close>

definition opacityOf :: "real \<Rightarrow> real" where
  "opacityOf l = fl (\<bar>l\<bar> / 100)"

text \<open>
  The two statements on \<^verbatim>\<open>opacity\<close> that end \<^verbatim>\<open>updatePosition\<close>, for the panel \<open>c\<close>
  held by \<^verbatim>\<open>contentToShow\<close>. The string \<^verbatim>\<open>opacity\<close> is \<^verbatim>\<open>toFixed(2)\<close> of that double; it
  is below 1 as a number exactly when its hundredths are below 100.
\<close>

definition showOpacity :: "Side \<Rightarrow> State \<Rightarrow> State" where
  "showOpacity c s =
     (if hundredths (opacityOf (left s)) < 100 \<and>
         Some (toFixed2 (opacityOf (left s))) \<noteq> map_option opacity (panel s c)
      then setOpacity (if left s < 0 then ContentRight else ContentLeft) ''0''
             (setOpacity c (toFixed2 (opacityOf (left s))) s)
      else s)"

definition fullOpacity :: "Side \<Rightarrow> State \<Rightarrow> State" where
  "fullOpacity c s =
     (if hundredths (opacityOf (left s)) \<ge> 100 then setOpacity c ''1'' s else s)"

definition setTransform :: "State \<Rightarrow> State" where
  "setTransform s =
     s\<lparr>listElement := map_option (\<lambda>e. e\<lparr>transform := TranslateX (left s)\<rparr>) (listElement s)\<rparr>"

definition updatePosition :: "Props \<Rightarrow> real \<Rightarrow> real \<Rightarrow> State \<Rightarrow> State" where
  "updatePosition p now now2 s =
     (if now - (case startTime s of None \<Rightarrow> 0 | Some t \<Rightarrow> t) > FPS_INTERVAL \<and> isSwiping p s then
        (if panel (clampLeft s) (contentToShow s) = None then clampLeft s
         else
           (fullOpacity (contentToShow s)
             (showOpacity (contentToShow s)
               (reportProgress p (setTransform (clampLeft s)))))\<lparr>startTime := Some now2\<rparr>)
      else s)"

subsection \<open>The event loop\<close>

text \<open>
  The browser runs the callbacks requested since the last frame; each one clears
  \<^verbatim>\<open>requestedAnimationFrame\<close> and calls \<^verbatim>\<open>updatePosition\<close>, whose two readings of the
  clock are \<open>now\<close> and \<open>now2\<close>.
\<close>

fun runFrameCallbacks :: "Props \<Rightarrow> real \<Rightarrow> real \<Rightarrow> nat list \<Rightarrow> State \<Rightarrow> State" where
  "runFrameCallbacks p now now2 [] s = s"
| "runFrameCallbacks p now now2 (h # hs) s =
     runFrameCallbacks p now now2 hs (updatePosition p now now2 (s\<lparr>requestedAnimationFrame := None\<rparr>))"

definition animationFrame :: "Props \<Rightarrow> real \<Rightarrow> real \<Rightarrow> State \<Rightarrow> State" where
  "animationFrame p now now2 s =
     runFrameCallbacks p now now2 (frameCallbacks s) (s\<lparr>frameCallbacks := []\<rparr>)"

text \<open>
  An exception that leaves a handler is reported by the browser; the component keeps the
  state it had at that point. The listeners are not modelled: \<open>step\<close> accepts every event in
  every state, which covers every order the browser can deliver.
\<close>

definition settle :: "outcome \<Rightarrow> State" where
  "settle r = (case r of Inl e \<Rightarrow> snd e | Inr s \<Rightarrow> s)"

fun step :: "Props \<Rightarrow> State \<Rightarrow> Event \<Rightarrow> State" where
  "step p s (DragStart x y now) = settle (handleDragStart s x y now)"
| "step p s (MouseMove x y) = handleMouseMove p s x y"
| "step p s (TouchMove x y cancelable) = handleTouchMove p s x y cancelable"
| "step p s DragEnd = settle (handleDragEnd p s)"
| "step p s (AnimationFrame now now2) = animationFrame p now now2 s"

definition run :: "Props \<Rightarrow> State \<Rightarrow> Event list \<Rightarrow> State" where
  "run p s evs = foldl (step p) s evs"

text \<open>
  The item after the constructor and the first render, \<open>w\<close> pixels wide: a reveal panel is
  rendered, and its ref bound, exactly when its prop is given.
\<close>

definition element :: "string \<Rightarrow> nat \<Rightarrow> Element" where
  "element c w = \<lparr>className = c, opacity = [], transform = NoTransform, offsetWidth = w\<rparr>"

definition mounted :: "Props \<Rightarrow> nat \<Rightarrow> State" where
  "mounted p w =
     \<lparr>contentLeft = (if swipeLeft p \<noteq> None then Some (element class_content_left w) else None),
      contentRight = (if swipeRight p \<noteq> None then Some (element class_content_right w) else None),
      listElement = Some (element class_content w),
      requestedAnimationFrame = None,
      startTime = None,
      previousSwipeDistancePercent = 0,
      dragStartPoint = (-1, -1),
      dragDirection = UNKNOWN,
      left = 0,
      frameCallbacks = [],
      nextHandle = 1,
      calls = []\<rparr>"

subsection \<open>Events inside a gesture\<close>

text \<open>The events that neither start nor end a gesture: moves and animation frames.\<close>

fun gestureContinues :: "Event \<Rightarrow> bool" where
  "gestureContinues (MouseMove x y) = True"
| "gestureContinues (TouchMove x y c) = True"
| "gestureContinues (AnimationFrame now now2) = True"
| "gestureContinues (DragStart x y now) = False"
| "gestureContinues DragEnd = False"

text \<open>The three elements of the item, as one observation.\<close>

definition elements :: "State \<Rightarrow> Element option \<times> Element option \<times> Element option" where
  "elements s = (listElement s, contentLeft s, contentRight s)"

subsection \<open>Example items\<close>

text \<open>An item with both actions: the left one removes it, the right one returns it.\<close>

definition itemRemove :: Props where
  "itemRemove =
     \<lparr>blockSwipe = False,
      swipeLeft = Some \<lparr>action = True, actionAnimation = Some REMOVE\<rparr>,
      swipeRight = Some \<lparr>action = True, actionAnimation = None\<rparr>,
      scrollStartThreshold = None, swipeStartThreshold = None, threshold = None,
      onSwipeStart = True, onSwipeEnd = True, onSwipeProgress = True\<rparr>"

text \<open>
  An item in the middle of a gesture that started at (100, 100) at time 0: classified \<open>d\<close>,
  dragged to the offset \<open>f\<close>, a refresh requested.
\<close>

definition dragging :: "Props \<Rightarrow> nat \<Rightarrow> DragDirection \<Rightarrow> real \<Rightarrow> State" where
  "dragging p w d f =
     (mounted p w)\<lparr>requestedAnimationFrame := Some 1, startTime := Some 0,
                   dragStartPoint := (100, 100), dragDirection := d, left := f,
                   frameCallbacks := [1], nextHandle := 2\<rparr>"

text \<open>An item whose only action, the left one, leaves it where it was dragged to.\<close>

definition itemStay :: Props where
  "itemStay =
     \<lparr>blockSwipe = False,
      swipeLeft = Some \<lparr>action = True, actionAnimation = Some NONE\<rparr>,
      swipeRight = None,
      scrollStartThreshold = None, swipeStartThreshold = None, threshold = None,
      onSwipeStart = True, onSwipeEnd = True, onSwipeProgress = True\<rparr>"

definition itemBlocked :: Props where
  "itemBlocked = itemRemove\<lparr>blockSwipe := True\<rparr>"

definition itemOnlyRight :: Props where
  "itemOnlyRight =
     \<lparr>blockSwipe = False,
      swipeLeft = None,
      swipeRight = Some \<lparr>action = True, actionAnimation = None\<rparr>,
      scrollStartThreshold = None, swipeStartThreshold = None, threshold = None,
      onSwipeStart = True, onSwipeEnd = True, onSwipeProgress = True\<rparr>"


text \<open>
  An item with a right action only: the drag starts at (100, 100), is classified \<open>RIGHT\<close> by
  a move to (120, 100), and then moves to (x, 100).
\<close>

definition draggedBack :: "real \<Rightarrow> State" where
  "draggedBack x =
     run itemOnlyRight (mounted itemOnlyRight 200)
       [DragStart 100 100 0, MouseMove 120 100, MouseMove x 100]"


subsection \<open>Progress reports\<close>

text \<open>
  The arguments of the invocations of \<^verbatim>\<open>onSwipeProgress\<close>, in order. \<open>reports s s' vs\<close>: from
  \<open>s\<close> to \<open>s'\<close> the values \<open>vs\<close> were reported, each within 0 and 100 and different from the
  one before it, the first from \<^verbatim>\<open>previousSwipeDistancePercent\<close> of \<open>s\<close>, and \<open>s'\<close> remembers
  the last.
\<close>

fun progressValues :: "Call list \<Rightarrow> int list" where
  "progressValues [] = []"
| "progressValues (OnSwipeProgress v # cs) = v # progressValues cs"
| "progressValues (c # cs) = progressValues cs"


subsection \<open>Pending refreshes\<close>


subsection \<open>Gestures that are never horizontal\<close>

text \<open>
  The direction is neither \<open>LEFT\<close> nor \<open>RIGHT\<close> in \<open>s\<close> and after each of the events, all of
  which are moves and animation frames.
\<close>

fun neverHorizontal :: "Props \<Rightarrow> State \<Rightarrow> Event list \<Rightarrow> bool" where
  "neverHorizontal p s [] = (dragDirection s \<noteq> LEFT \<and> dragDirection s \<noteq> RIGHT)"
| "neverHorizontal p s (ev # evs) =
     (dragDirection s \<noteq> LEFT \<and> dragDirection s \<noteq> RIGHT \<and> gestureContinues ev \<and>
      neverHorizontal p (step p s ev) evs)"

section \<open>Properties\<close>

subsection \<open>Doubles\<close>

lemma round_half_even_int [simp]: "round_half_even (of_int n) = n"
  by (simp add: round_half_even_def)

lemma round_half_even_error: "\<bar>of_int (round_half_even y) - y\<bar> \<le> 1 / 2"
  unfolding round_half_even_def by (auto; linarith)

lemma round_half_even_sign:
  "0 \<le> y \<Longrightarrow> 0 \<le> round_half_even y" "y \<le> 0 \<Longrightarrow> round_half_even y \<le> 0"
  unfolding round_half_even_def by (auto; linarith)+

lemma ulp_pos [simp]: "0 < ulp x"
  by (simp add: ulp_def)

lemma ulp_nonzero [simp]: "ulp x \<noteq> 0"
  by (simp add: ulp_def)

lemma fl_zero [simp]: "fl 0 = 0"
  by (simp add: fl_def)

lemma fl_sign: "0 \<le> x \<Longrightarrow> 0 \<le> fl x" "x \<le> 0 \<Longrightarrow> fl x \<le> 0"
  by (auto simp: fl_def intro!: mult_nonneg_nonneg mult_nonpos_nonneg round_half_even_sign
      simp: divide_nonneg_pos divide_nonpos_pos less_imp_le)

text \<open>The double nearest to \<open>x\<close> is within half the spacing of \<open>x\<close>.\<close>

lemma fl_error: "\<bar>fl x - x\<bar> \<le> ulp x / 2"
proof (cases "x = 0")
  case True
  then show ?thesis by (simp add: less_imp_le)
next
  case False
  have "fl x - x = (of_int (round_half_even (x / ulp x)) - x / ulp x) * ulp x"
    using False ulp_pos [of x] by (simp add: fl_def left_diff_distrib)
  then have "\<bar>fl x - x\<bar> = \<bar>of_int (round_half_even (x / ulp x)) - x / ulp x\<bar> * ulp x"
    using ulp_pos [of x] by (simp only: abs_mult abs_of_pos)
  also have "\<dots> \<le> 1 / 2 * ulp x"
    by (intro mult_right_mono round_half_even_error) (simp add: less_imp_le)
  finally show ?thesis by simp
qed

lemma ulp_le: "x \<noteq> 0 \<Longrightarrow> ulp x \<le> \<bar>x\<bar> / 2 ^ 52 + 2 powr (- 1074)"
proof -
  assume x: "x \<noteq> 0"
  let ?e = "\<lfloor>log 2 \<bar>x\<bar>\<rfloor>"
  have "2 powr of_int ?e \<le> 2 powr log 2 \<bar>x\<bar>"
    by (intro powr_mono) simp_all
  with x have e: "2 powr of_int ?e \<le> \<bar>x\<bar>" by simp
  show ?thesis
  proof (cases "?e \<le> - 1022")
    case True
    then have "max ?e (- 1022) = - 1022" by simp
    then have "ulp x = 2 powr (- 1074)" by (simp add: ulp_def)
    then show ?thesis by simp
  next
    case False
    then have "max ?e (- 1022) = ?e" by simp
    then have "ulp x = 2 powr (of_int ?e - 52)" by (simp add: ulp_def)
    also have "\<dots> = 2 powr of_int ?e / 2 ^ 52"
      by (simp add: powr_diff)
    also have "\<dots> \<le> \<bar>x\<bar> / 2 ^ 52"
      using e by (simp add: divide_right_mono)
    finally show ?thesis
      by (simp add: add_increasing2)
  qed
qed

lemma fl_relative: "\<bar>fl x - x\<bar> \<le> \<bar>x\<bar> / 2 ^ 53 + 2 powr (- 1075)"
proof (cases "x = 0")
  case True
  then show ?thesis by simp
next
  case False
  have "2 powr (- 1074) / 2 = (2::real) powr (- 1075)"
    by (simp add: powr_neg_numeral)
  with fl_error [of x] ulp_le [OF False] show ?thesis
    by (simp add: field_simps)
qed

lemma powr_1075_small: "2 powr (- 1075) \<le> (1 / 2 ^ 60 :: real)"
proof -
  have "(2::real) powr (- 1075) = 2 powr (- real (1075::nat))"
    by simp
  also have "\<dots> = 1 / 2 ^ 1075"
    by (simp only: powr_minus powr_realpow zero_less_numeral inverse_eq_divide)
  also have "\<dots> \<le> 1 / 2 ^ 60"
    by (intro divide_left_mono power_increasing) simp_all
  finally show ?thesis .
qed

lemma fl_near: "\<bar>fl x - x\<bar> \<le> \<bar>x\<bar> / 2 ^ 53 + 1 / 2 ^ 60"
  using fl_relative [of x] powr_1075_small by linarith


text \<open>
  A number \<open>j / 2\<^sup>i\<close> with \<open>|j| < 2\<^sup>5\<^sup>3\<close> is a double: whole numbers of pixels and their
  halves are.
\<close>

lemma fl_exact:
  assumes "x / ulp x = of_int n"
  shows "fl x = x"
proof -
  have "x = x / ulp x * ulp x"
    using ulp_pos [of x] by simp
  then have "x = of_int n * ulp x"
    by (simp only: assms)
  with assms show ?thesis
    by (simp add: fl_def)
qed

lemma ulp_dyadic:
  assumes "j \<noteq> 0" and "\<bar>j\<bar> < 2 ^ 53" and "i \<le> 1074"
  shows "\<exists>m::nat. ulp (of_int j / 2 ^ i) = 1 / 2 ^ (i + m)"
proof -
  let ?x = "real_of_int j / 2 ^ i"
  let ?e = "\<lfloor>log 2 \<bar>?x\<bar>\<rfloor>"
  from assms have x: "0 < \<bar>?x\<bar>" by simp
  from assms(2) have "real_of_int \<bar>j\<bar> < real_of_int (2 ^ 53)"
    by (simp only: of_int_less_iff)
  then have "\<bar>real_of_int j\<bar> < 2 ^ 53"
    by simp
  then have "\<bar>real_of_int j\<bar> / 2 ^ i < 2 ^ 53 / 2 ^ i"
    by (intro divide_strict_right_mono) simp_all
  then have "\<bar>?x\<bar> < 2 ^ 53 / 2 ^ i"
    by simp
  also have "\<dots> = 2 powr (53 - of_nat i)"
    by (simp add: powr_diff powr_realpow)
  finally have "log 2 \<bar>?x\<bar> < 53 - of_nat i"
    using x by (simp add: log_less_iff)
  then have "?e < 53 - int i"
    by linarith
  then have "max ?e (- 1022) - 52 \<le> - int i"
    using assms(3) by simp
  then have "0 \<le> - int i - (max ?e (- 1022) - 52)"
    by simp
  then obtain m :: nat where "- int i - (max ?e (- 1022) - 52) = int m"
    using zero_le_imp_eq_int by blast
  then have m: "max ?e (- 1022) - 52 = - int (i + m)"
    by simp
  have "ulp ?x = 2 powr (of_int (max ?e (- 1022) - 52))"
    by (simp add: ulp_def)
  also have "\<dots> = 2 powr (- real (i + m))"
    unfolding m by simp
  also have "\<dots> = 1 / 2 ^ (i + m)"
    by (simp only: powr_minus powr_realpow zero_less_numeral inverse_eq_divide)
  finally show ?thesis ..
qed

lemma fl_dyadic:
  assumes "\<bar>j\<bar> < 2 ^ 53" and "i \<le> 1074"
  shows "fl (of_int j / 2 ^ i) = of_int j / 2 ^ i"
proof (cases "j = 0")
  case True
  then show ?thesis by simp
next
  case False
  from ulp_dyadic [OF False assms] obtain m :: nat
    where m: "ulp (of_int j / 2 ^ i) = 1 / 2 ^ (i + m)" ..
  have "real_of_int j / 2 ^ i / ulp (of_int j / 2 ^ i) = of_int (j * 2 ^ m)"
    unfolding m by (simp add: power_add)
  then show ?thesis by (rule fl_exact)
qed

lemma fl_int: "\<bar>k\<bar> < 2 ^ 53 \<Longrightarrow> fl (of_int k) = of_int k"
  using fl_dyadic [of k 0] by simp

lemma fl_half:
  assumes "x = of_int j / 2" and "\<bar>j\<bar> < 2 ^ 53"
  shows "fl x = x"
proof -
  from fl_dyadic [OF assms(2), of 1] have "fl (of_int j / 2) = of_int j / 2"
    by simp
  then show ?thesis
    unfolding assms(1) .
qed

text \<open>
  The opacity at an offset of \<open>k\<close> whole pixels: the double nearest to \<open>|k| / 100\<close> is so
  close to it that \<^verbatim>\<open>toFixed(2)\<close> finds \<open>|k|\<close> hundredths.
\<close>

lemma opacityOf_zero [simp]: "opacityOf 0 = 0"
  by (simp add: opacityOf_def)

lemma hundredths_whole:
  assumes "\<bar>k\<bar> < 2 ^ 50"
  shows "hundredths (opacityOf (of_int k)) = nat \<bar>k\<bar>"
proof -
  let ?x = "\<bar>real_of_int k\<bar> / 100"
  from assms have "real_of_int \<bar>k\<bar> < real_of_int (2 ^ 50)"
    by (simp only: of_int_less_iff)
  then have "\<bar>real_of_int k\<bar> \<le> 2 ^ 50"
    by simp
  then have "\<bar>real_of_int k\<bar> / (100 * 2 ^ 53) \<le> 2 ^ 50 / (100 * 2 ^ 53)"
    by (intro divide_right_mono) simp_all
  then have "\<bar>?x\<bar> / 2 ^ 53 \<le> 1 / 800"
    by simp
  with fl_near [of ?x] have "\<bar>fl ?x - ?x\<bar> \<le> 1 / 800 + 1 / 2 ^ 60"
    by linarith
  then have "\<bar>fl ?x * 100 - \<bar>real_of_int k\<bar>\<bar> < 1 / 2"
    by (simp add: field_simps abs_if split: if_splits)
  then have "real_of_int \<bar>k\<bar> \<le> fl ?x * 100 + 1 / 2"
      "fl ?x * 100 + 1 / 2 < real_of_int \<bar>k\<bar> + 1"
    unfolding of_int_abs by linarith+
  then have "\<lfloor>fl ?x * 100 + 1 / 2\<rfloor> = \<bar>k\<bar>"
    by (rule floor_unique)
  then show ?thesis
    by (simp add: hundredths_def opacityOf_def)
qed

lemma hundredths_whole_above:
  assumes "100 \<le> \<bar>k\<bar>"
  shows "100 \<le> hundredths (opacityOf (of_int k))"
proof -
  let ?x = "\<bar>real_of_int k\<bar> / 100"
  from assms have k: "100 \<le> \<bar>real_of_int k\<bar>"
    by linarith
  have "\<bar>?x\<bar> / 2 ^ 53 \<le> ?x / 1000"
    by (simp add: field_simps)
  with fl_near [of ?x] have "?x - ?x / 1000 - 1 / 2 ^ 60 \<le> fl ?x"
    by linarith
  with k have "100 \<le> fl ?x * 100 + 1 / 2"
    by (simp add: field_simps)
  then have "100 \<le> \<lfloor>fl ?x * 100 + 1 / 2\<rfloor>"
    by (simp add: le_floor_iff)
  then have "100 \<le> nat \<lfloor>fl ?x * 100 + 1 / 2\<rfloor>"
    by linarith
  then show ?thesis
    by (simp only: hundredths_def opacityOf_def)
qed

lemma hundredths_opacityOf:
  assumes "l \<in> \<int>" and "\<bar>l\<bar> < 2 ^ 50"
  shows "hundredths (opacityOf l) = nat \<lfloor>\<bar>l\<bar>\<rfloor>"
proof -
  from assms(1) obtain k where l: "l = of_int k"
    by (rule Ints_cases)
  from assms(2) have "real_of_int \<bar>k\<bar> < real_of_int (2 ^ 50)"
    unfolding l by simp
  then have "\<bar>k\<bar> < 2 ^ 50"
    by (simp only: of_int_less_iff)
  moreover have "\<bar>real_of_int k\<bar> = real_of_int \<bar>k\<bar>"
    by simp
  then have "\<lfloor>\<bar>real_of_int k\<bar>\<rfloor> = \<bar>k\<bar>"
    by (simp only: floor_of_int)
  ultimately show ?thesis
    unfolding l by (simp only: hundredths_whole)
qed

text \<open>
  The progress at an offset of \<open>k\<close> whole pixels: the difference and the product are whole
  numbers, which are doubles, and the quotient is half a whole number, which is a double, or
  further from every half of a whole number than the double nearest to it is from it.
\<close>

lemma Math_round_fl_ratio:
  fixes A :: int and w :: nat
  assumes "0 \<le> A" and "A \<le> 100 * int w" and "0 < w" and "w < 2 ^ 31"
  shows "Math_round (fl (real_of_int A / real w)) = Math_round (real_of_int A / real w)"
proof -
  let ?q = "real_of_int A / real w"
  let ?m = "\<lfloor>?q + 1 / 2\<rfloor>"
  let ?N = "2 * A + int w - 2 * ?m * int w"
  define d where "d = ?q + 1 / 2 - of_int ?m"
  have q: "0 \<le> ?q" "?q \<le> 100"
    using assms by (simp_all add: field_simps)
  have d: "0 \<le> d" "d < 1"
    unfolding d_def by linarith+
  have w: "0 < 2 * real w"
    using assms(3) by simp
  have N: "real_of_int ?N = 2 * real w * d"
    unfolding d_def using assms(3) by (simp add: field_simps)
  from d(1) w have "0 \<le> 2 * real w * d"
    by (intro mult_nonneg_nonneg) simp_all
  then have "0 \<le> real_of_int ?N"
    by (simp only: N)
  then have N0: "0 \<le> ?N"
    by (simp only: of_int_0_le_iff)
  show ?thesis
  proof (cases "?N = 0")
    case True
    then have "real_of_int ?N = 0"
      by (simp only: of_int_0)
    then have "2 * real w * d = 0"
      by (simp only: N)
    with w have "d = 0"
      by simp
    then have "?q = of_int (2 * ?m - 1) / 2"
      unfolding d_def by simp
    moreover have "\<bar>2 * ?m - 1\<bar> < 2 ^ 53"
      using q by (simp add: abs_if; linarith)
    ultimately have "fl ?q = ?q"
      by (rule fl_half)
    then show ?thesis by (simp only:)
  next
    case False
    with N0 have "1 \<le> ?N" by simp
    then have "real_of_int 1 \<le> real_of_int ?N"
      by (simp only: of_int_le_iff)
    then have "1 \<le> real_of_int ?N"
      by (simp only: of_int_1)
    then have "1 \<le> 2 * real w * d"
      by (simp only: N)
    then have "1 \<le> d * (2 * real w)"
      by (simp add: ac_simps)
    then have lo: "1 / (2 * real w) \<le> d"
      by (simp only: pos_divide_le_eq [OF w])
    from d(2) w have "2 * real w * d < 2 * real w * 1"
      by (intro mult_strict_left_mono) simp_all
    then have "real_of_int ?N < 2 * real w"
      by (simp only: N mult_1_right)
    then have "real_of_int ?N < real_of_int (2 * int w)"
      by simp
    then have "?N < 2 * int w"
      by (simp only: of_int_less_iff)
    then have "?N \<le> 2 * int w - 1"
      by simp
    then have "real_of_int ?N \<le> real_of_int (2 * int w - 1)"
      by (simp only: of_int_le_iff)
    then have "2 * real w * d \<le> real_of_int (2 * int w - 1)"
      by (simp only: N)
    then have "d * (2 * real w) \<le> 2 * real w - 1"
      by (simp add: ac_simps)
    then have "d \<le> (2 * real w - 1) / (2 * real w)"
      by (simp only: pos_le_divide_eq [OF w])
    also have "\<dots> = 1 - 1 / (2 * real w)"
      using w by (simp add: field_simps)
    finally have hi: "d \<le> 1 - 1 / (2 * real w)" .
    have "real w < 2 ^ 31"
      using assms(4) by (metis of_nat_less_iff of_nat_numeral of_nat_power)
    then have "2 * real w < 2 ^ 32"
      by simp
    with w have gap: "1 / 2 ^ 32 < 1 / (2 * real w)"
      by (intro divide_strict_left_mono) simp_all
    from q have "\<bar>?q\<bar> / 2 ^ 53 \<le> 100 / 2 ^ 53"
      by (simp add: field_simps)
    with fl_near [of ?q] have "\<bar>fl ?q - ?q\<bar> \<le> 100 / 2 ^ 53 + 1 / 2 ^ 60"
      by linarith
    then have e: "\<bar>fl ?q - ?q\<bar> < 1 / 2 ^ 32"
      by simp
    from e lo hi gap have "of_int ?m \<le> fl ?q + 1 / 2" "fl ?q + 1 / 2 < of_int ?m + 1"
      unfolding d_def by linarith+
    then have "\<lfloor>fl ?q + 1 / 2\<rfloor> = ?m"
      by (intro floor_unique)
    then show ?thesis
      by (simp add: Math_round_def)
  qed
qed

lemma progress_whole:
  fixes k :: int and w :: nat
  assumes "0 < w" and "w < 2 ^ 31"
  shows "Math_round (fl (fl (100 * max 0 (fl (real w - \<bar>real_of_int k\<bar>))) / real w)) =
         Math_round (100 * max 0 (real w - \<bar>real_of_int k\<bar>) / real w)"
proof (cases "\<bar>k\<bar> \<le> int w")
  case True
  let ?d = "int w - \<bar>k\<bar>"
  from True have d: "0 \<le> ?d" "?d \<le> int w"
    by simp_all
  have w: "int w < 2 ^ 31"
    using assms(2) by (metis of_nat_less_iff of_nat_numeral of_nat_power)
  have r: "real w - \<bar>real_of_int k\<bar> = real_of_int ?d"
    by simp
  from d w have "\<bar>?d\<bar> < 2 ^ 53"
    by simp
  then have f1: "fl (real_of_int ?d) = real_of_int ?d"
    by (rule fl_int)
  from d have m: "max 0 (real_of_int ?d) = real_of_int ?d"
    by simp
  have p: "100 * real_of_int ?d = real_of_int (100 * ?d)"
    by simp
  from d w have "\<bar>100 * ?d\<bar> < 2 ^ 53"
    by simp
  then have f2: "fl (real_of_int (100 * ?d)) = real_of_int (100 * ?d)"
    by (rule fl_int)
  from d have "0 \<le> 100 * ?d" "100 * ?d \<le> 100 * int w"
    by simp_all
  from Math_round_fl_ratio [OF this assms]
  show ?thesis
    unfolding r f1 m p f2 .
next
  case False
  then have "real w - \<bar>real_of_int k\<bar> \<le> 0"
    by linarith
  then have "fl (real w - \<bar>real_of_int k\<bar>) \<le> 0" "max 0 (real w - \<bar>real_of_int k\<bar>) = 0"
    by (simp_all add: fl_sign)
  then have "max 0 (fl (real w - \<bar>real_of_int k\<bar>)) = 0"
    by simp
  with \<open>max 0 (real w - \<bar>real_of_int k\<bar>) = 0\<close> show ?thesis
    by simp
qed

lemma swipeDistancePercent_whole:
  assumes "left s \<in> \<int>" and "w \<noteq> 0" and "w < 2 ^ 31"
  shows "swipeDistancePercent s w =
     100 - Math_round (100 * max 0 (real w - \<bar>left s\<bar>) / real w)"
proof -
  from assms(1) obtain k where l: "left s = of_int k"
    by (rule Ints_cases)
  from assms(2) have "0 < w" by simp
  from progress_whole [OF this assms(3), of k] assms(2) show ?thesis
    by (simp add: swipeDistancePercent_def l)
qed



text \<open>
  At other offsets the rounding shows. At the offsets 1.5 and -99.5 the double nearest to
  the quotient by 100 lies below it, and \<^verbatim>\<open>toFixed(2)\<close> gives 0.01 and 0.99, not 0.02 and
  1.00. At the width 320 and the offset \<open>8 + 2\<^sup>-\<^sup>4\<^sup>9\<close> the difference is rounded to 312, and
  the progress is 2, where the quotient of the exact difference rounds to 97 and gives 3.
\<close>

lemma ulp_eq:
  assumes "2 powr of_int e \<le> \<bar>x\<bar>" and "\<bar>x\<bar> < 2 powr (of_int e + 1)" and "- 1022 \<le> e"
  shows "ulp x = 2 powr (of_int e - 52)"
proof -
  from assms(1) have "0 < \<bar>x\<bar>"
    by (rule less_le_trans [rotated]) simp
  with assms(1,2) have "\<lfloor>log 2 \<bar>x\<bar>\<rfloor> = e"
    by (simp add: floor_log_eq_powr_iff)
  with assms(3) show ?thesis
    by (simp add: ulp_def)
qed

lemma fl_eq:
  assumes "ulp x = u" and "round_half_even (x / u) = n" and "x \<noteq> 0"
  shows "fl x = of_int n * u"
  using assms by (simp add: fl_def)

lemma opacity_at_half_pixels:
  "hundredths (opacityOf (3 / 2)) = 1"
  "toFixed2 (opacityOf (3 / 2)) = ''0.01''"
  "hundredths (opacityOf (- 199 / 2)) = 99"
  "toFixed2 (opacityOf (- 199 / 2)) = ''0.99''"
  "hundredths (\<bar>3 / 2\<bar> / 100) = 2"
  "hundredths (\<bar>- 199 / 2\<bar> / 100) = 100"
proof -
  define x :: real where "x = 3 / 200"
  have "ulp x = 2 powr (of_int (- 7) - 52)"
    by (rule ulp_eq) (simp_all add: powr_neg_numeral x_def)
  then have u: "ulp x = 1 / 2 ^ 59"
    by (simp add: powr_neg_numeral)
  have r: "round_half_even (x / (1 / 2 ^ 59)) = 8646911284551352"
    by (simp add: round_half_even_def x_def)
  have "x \<noteq> 0" by (simp add: x_def)
  note f = fl_eq [OF u r this]
  have "hundredths (fl x) = 1"
    unfolding f by (simp add: hundredths_def)
  then show a: "hundredths (opacityOf (3 / 2)) = 1"
    by (simp add: x_def opacityOf_def)
  show "toFixed2 (opacityOf (3 / 2)) = ''0.01''"
    unfolding toFixed2_def a by simp
  define y :: real where "y = 199 / 200"
  have "ulp y = 2 powr (of_int (- 1) - 52)"
    by (rule ulp_eq) (simp_all add: powr_neg_numeral y_def)
  then have u: "ulp y = 1 / 2 ^ 53"
    by (simp add: powr_neg_numeral)
  have r: "round_half_even (y / (1 / 2 ^ 53)) = 8962163258467287"
    by (simp add: round_half_even_def y_def)
  have "y \<noteq> 0" by (simp add: y_def)
  note g = fl_eq [OF u r this]
  have "hundredths (fl y) = 99"
    unfolding g by (simp add: hundredths_def)
  then show b: "hundredths (opacityOf (- 199 / 2)) = 99"
    by (simp add: y_def opacityOf_def)
  show "toFixed2 (opacityOf (- 199 / 2)) = ''0.99''"
    unfolding toFixed2_def b by simp
  show "hundredths (\<bar>3 / 2\<bar> / 100) = 2" "hundredths (\<bar>- 199 / 2\<bar> / 100) = 100"
    by (simp_all add: hundredths_def)
qed

lemma progress_at_a_fraction:
  "swipeDistancePercent (s\<lparr>left := 8 + 1 / 2 ^ 49\<rparr>) 320 = 2"
  "100 - Math_round (100 * max 0 (320 - \<bar>8 + 1 / 2 ^ 49\<bar>) / 320) = 3"
proof -
  define x :: real where "x = 320 - (8 + 1 / 2 ^ 49)"
  have "ulp x = 2 powr (of_int 8 - 52)"
    by (rule ulp_eq) (simp_all add: x_def)
  then have u: "ulp x = 1 / 2 ^ 44"
    by (simp add: powr_neg_numeral)
  have r: "round_half_even (x / (1 / 2 ^ 44)) = 5488762045857792"
    by (simp add: round_half_even_def x_def)
  have "x \<noteq> 0" by (simp add: x_def)
  from fl_eq [OF u r this] have f: "fl x = 312"
    by simp
  have g: "fl 31200 = 31200" "fl (195 / 2) = 195 / 2"
    using fl_int [of 31200] fl_half [of "195 / 2" 195] by simp_all
  have "100 - Math_round (fl (fl (100 * max 0 (fl x)) / real (320::nat))) = 2"
    by (simp add: f g Math_round_def)
  then show "swipeDistancePercent (s\<lparr>left := 8 + 1 / 2 ^ 49\<rparr>) 320 = 2"
    by (simp add: swipeDistancePercent_def x_def)
  show "100 - Math_round (100 * max 0 (320 - \<bar>8 + 1 / 2 ^ 49\<bar>) / 320) = 3"
    by (simp add: Math_round_def)
qed

subsection \<open>What each function leaves alone\<close>

lemma scheduleUpdatePosition_frame [simp]:
  "contentLeft (scheduleUpdatePosition s) = contentLeft s"
  "contentRight (scheduleUpdatePosition s) = contentRight s"
  "listElement (scheduleUpdatePosition s) = listElement s"
  "startTime (scheduleUpdatePosition s) = startTime s"
  "previousSwipeDistancePercent (scheduleUpdatePosition s) = previousSwipeDistancePercent s"
  "dragStartPoint (scheduleUpdatePosition s) = dragStartPoint s"
  "dragDirection (scheduleUpdatePosition s) = dragDirection s"
  "left (scheduleUpdatePosition s) = left s"
  "calls (scheduleUpdatePosition s) = calls s"
  by (simp_all add: scheduleUpdatePosition_def)

lemma setOpacity_frame [simp]:
  "listElement (setOpacity c v s) = listElement s"
  "requestedAnimationFrame (setOpacity c v s) = requestedAnimationFrame s"
  "startTime (setOpacity c v s) = startTime s"
  "previousSwipeDistancePercent (setOpacity c v s) = previousSwipeDistancePercent s"
  "dragStartPoint (setOpacity c v s) = dragStartPoint s"
  "dragDirection (setOpacity c v s) = dragDirection s"
  "left (setOpacity c v s) = left s"
  "frameCallbacks (setOpacity c v s) = frameCallbacks s"
  "nextHandle (setOpacity c v s) = nextHandle s"
  "calls (setOpacity c v s) = calls s"
  by (simp_all add: setOpacity_def split: Side.split)

lemma showOpacity_frame [simp]:
  "listElement (showOpacity c s) = listElement s"
  "requestedAnimationFrame (showOpacity c s) = requestedAnimationFrame s"
  "startTime (showOpacity c s) = startTime s"
  "previousSwipeDistancePercent (showOpacity c s) = previousSwipeDistancePercent s"
  "dragStartPoint (showOpacity c s) = dragStartPoint s"
  "dragDirection (showOpacity c s) = dragDirection s"
  "left (showOpacity c s) = left s"
  "frameCallbacks (showOpacity c s) = frameCallbacks s"
  "nextHandle (showOpacity c s) = nextHandle s"
  "calls (showOpacity c s) = calls s"
  by (simp_all add: showOpacity_def)

lemma fullOpacity_frame [simp]:
  "listElement (fullOpacity c s) = listElement s"
  "requestedAnimationFrame (fullOpacity c s) = requestedAnimationFrame s"
  "startTime (fullOpacity c s) = startTime s"
  "previousSwipeDistancePercent (fullOpacity c s) = previousSwipeDistancePercent s"
  "dragStartPoint (fullOpacity c s) = dragStartPoint s"
  "dragDirection (fullOpacity c s) = dragDirection s"
  "left (fullOpacity c s) = left s"
  "frameCallbacks (fullOpacity c s) = frameCallbacks s"
  "nextHandle (fullOpacity c s) = nextHandle s"
  "calls (fullOpacity c s) = calls s"
  by (simp_all add: fullOpacity_def)

lemma reportProgress_frame [simp]:
  "contentLeft (reportProgress p s) = contentLeft s"
  "contentRight (reportProgress p s) = contentRight s"
  "listElement (reportProgress p s) = listElement s"
  "requestedAnimationFrame (reportProgress p s) = requestedAnimationFrame s"
  "startTime (reportProgress p s) = startTime s"
  "dragStartPoint (reportProgress p s) = dragStartPoint s"
  "dragDirection (reportProgress p s) = dragDirection s"
  "left (reportProgress p s) = left s"
  "frameCallbacks (reportProgress p s) = frameCallbacks s"
  "nextHandle (reportProgress p s) = nextHandle s"
  by (simp_all add: reportProgress_def split: option.split)

lemma setTransform_frame [simp]:
  "contentLeft (setTransform s) = contentLeft s"
  "contentRight (setTransform s) = contentRight s"
  "requestedAnimationFrame (setTransform s) = requestedAnimationFrame s"
  "startTime (setTransform s) = startTime s"
  "previousSwipeDistancePercent (setTransform s) = previousSwipeDistancePercent s"
  "dragStartPoint (setTransform s) = dragStartPoint s"
  "dragDirection (setTransform s) = dragDirection s"
  "left (setTransform s) = left s"
  "frameCallbacks (setTransform s) = frameCallbacks s"
  "nextHandle (setTransform s) = nextHandle s"
  "calls (setTransform s) = calls s"
  by (simp_all add: setTransform_def)

lemma clampLeft_frame [simp]:
  "contentLeft (clampLeft s) = contentLeft s"
  "contentRight (clampLeft s) = contentRight s"
  "listElement (clampLeft s) = listElement s"
  "requestedAnimationFrame (clampLeft s) = requestedAnimationFrame s"
  "startTime (clampLeft s) = startTime s"
  "previousSwipeDistancePercent (clampLeft s) = previousSwipeDistancePercent s"
  "dragStartPoint (clampLeft s) = dragStartPoint s"
  "dragDirection (clampLeft s) = dragDirection s"
  "frameCallbacks (clampLeft s) = frameCallbacks s"
  "nextHandle (clampLeft s) = nextHandle s"
  "calls (clampLeft s) = calls s"
  by (simp_all add: clampLeft_def Let_def)

lemma updatePosition_frame [simp]:
  "requestedAnimationFrame (updatePosition p now now2 s) = requestedAnimationFrame s"
  "dragStartPoint (updatePosition p now now2 s) = dragStartPoint s"
  "dragDirection (updatePosition p now now2 s) = dragDirection s"
  "frameCallbacks (updatePosition p now now2 s) = frameCallbacks s"
  "nextHandle (updatePosition p now now2 s) = nextHandle s"
  by (simp_all add: updatePosition_def)

lemma updatePosition_idle:
  "\<not> (now - (case startTime s of None \<Rightarrow> 0 | Some t \<Rightarrow> t) > FPS_INTERVAL \<and> isSwiping p s)
   \<Longrightarrow> updatePosition p now now2 s = s"
  unfolding updatePosition_def by (simp only: if_False)

lemma setDragDirection_sticky:
  "dragDirection s \<noteq> UNKNOWN \<Longrightarrow> setDragDirection p s x y = s"
  by (simp add: setDragDirection_def)

lemma setDragDirection_frame [simp]:
  "contentLeft (setDragDirection p s x y) = contentLeft s"
  "contentRight (setDragDirection p s x y) = contentRight s"
  "listElement (setDragDirection p s x y) = listElement s"
  "requestedAnimationFrame (setDragDirection p s x y) = requestedAnimationFrame s"
  "startTime (setDragDirection p s x y) = startTime s"
  "previousSwipeDistancePercent (setDragDirection p s x y) = previousSwipeDistancePercent s"
  "dragStartPoint (setDragDirection p s x y) = dragStartPoint s"
  "left (setDragDirection p s x y) = left s"
  "frameCallbacks (setDragDirection p s x y) = frameCallbacks s"
  "nextHandle (setDragDirection p s x y) = nextHandle s"
  by (simp_all add: setDragDirection_def Let_def)

lemma dragTo_frame [simp]:
  "contentLeft (dragTo s x) = contentLeft s"
  "contentRight (dragTo s x) = contentRight s"
  "listElement (dragTo s x) = listElement s"
  "startTime (dragTo s x) = startTime s"
  "previousSwipeDistancePercent (dragTo s x) = previousSwipeDistancePercent s"
  "dragStartPoint (dragTo s x) = dragStartPoint s"
  "dragDirection (dragTo s x) = dragDirection s"
  "left (dragTo s x) = x - fst (dragStartPoint s)"
  "calls (dragTo s x) = calls s @ [StopPropagation, PreventDefault]"
  by (simp_all add: dragTo_def)

lemma runFrameCallbacks_frame [simp]:
  "dragDirection (runFrameCallbacks p now now2 hs s) = dragDirection s"
  "dragStartPoint (runFrameCallbacks p now now2 hs s) = dragStartPoint s"
  by (induction hs arbitrary: s) simp_all

lemma step_sticky:
  "dragDirection s \<noteq> UNKNOWN \<Longrightarrow> gestureContinues ev \<Longrightarrow>
   dragDirection (step p s ev) = dragDirection s"
  by (cases ev)
     (simp_all add: handleMouseMove_def handleTouchMove_def setDragDirection_sticky animationFrame_def)

lemma run_sticky:
  "dragDirection s \<noteq> UNKNOWN \<Longrightarrow> list_all gestureContinues evs \<Longrightarrow>
   dragDirection (run p s evs) = dragDirection s"
  unfolding run_def
  by (induction evs arbitrary: s) (simp_all add: step_sticky)

lemma resetState_direction [simp]: "dragDirection (resetState s) = UNKNOWN"
  by (simp add: resetState_def)

lemma triggerAction_Inl:
  "triggerAction p s w = Inl e \<Longrightarrow> e = (TypeError, s)"
  by (auto simp: triggerAction_def split: if_splits option.splits)

lemma finishDrag_direction [simp]: "dragDirection (finishDrag r) = UNKNOWN"
  by (simp add: finishDrag_def playReturnAnimation_def)

lemma handleDragEnd_direction:
  "dragDirection (settle (handleDragEnd p s)) = UNKNOWN \<or>
   dragDirection (settle (handleDragEnd p s)) = dragDirection s"
  by (auto simp: settle_def handleDragEnd_def split: option.split sum.split dest: triggerAction_Inl)

lemma handleDragStart_direction:
  "dragDirection (settle (handleDragStart s x y now)) = UNKNOWN"
  by (simp add: settle_def handleDragStart_def)

lemma step_resets:
  "\<not> gestureContinues ev \<Longrightarrow>
   dragDirection (step p s ev) = UNKNOWN \<or> dragDirection (step p s ev) = dragDirection s"
  using handleDragEnd_direction [of p s]
  by (cases ev) (simp_all add: handleDragStart_direction)

subsection \<open>Thresholds\<close>

text \<open>
  C10. A \<^verbatim>\<open>swipeStartThreshold\<close> or \<^verbatim>\<open>scrollStartThreshold\<close> set to 0 is replaced by the
  default 10, whatever the other props are, and the effective thresholds are never 0.
\<close>

theorem zero_threshold_defaults_to_10:
  "dragHorizontalDirectionThreshold (p\<lparr>swipeStartThreshold := Some 0\<rparr>) = 10 \<and>
   dragVerticalDirectionThreshold (p\<lparr>scrollStartThreshold := Some 0\<rparr>) = 10 \<and>
   dragHorizontalDirectionThreshold p \<noteq> 0 \<and>
   dragVerticalDirectionThreshold p \<noteq> 0"
  by (simp add: dragHorizontalDirectionThreshold_def dragVerticalDirectionThreshold_def
      split: option.split)

subsection \<open>The direction of a gesture\<close>

text \<open>
  C4. Once the direction of a gesture is not \<open>UNKNOWN\<close>, no sequence of move events and
  animation frames changes it, wherever the moves point; and an event changes it only by
  resetting it to \<open>UNKNOWN\<close>, and only when that event starts or ends a gesture.
\<close>

theorem direction_is_sticky:
  assumes "dragDirection s \<noteq> UNKNOWN"
  shows "(list_all gestureContinues evs \<longrightarrow> dragDirection (run p s evs) = dragDirection s) \<and>
         (dragDirection (step p s ev) = dragDirection s \<or>
          dragDirection (step p s ev) = UNKNOWN \<and> \<not> gestureContinues ev)"
proof (intro conjI impI)
  assume "list_all gestureContinues evs"
  with assms show "dragDirection (run p s evs) = dragDirection s"
    by (rule run_sticky)
next
  show "dragDirection (step p s ev) = dragDirection s \<or>
        dragDirection (step p s ev) = UNKNOWN \<and> \<not> gestureContinues ev"
  proof (cases "gestureContinues ev")
    case True
    with assms show ?thesis by (simp add: step_sticky)
  next
    case False
    with step_resets [of ev p s] show ?thesis by auto
  qed
qed

theorem direction_is_sticky_witness:
  "dragDirection (dragging itemRemove 200 RIGHT 20) \<noteq> UNKNOWN \<and>
   list_all gestureContinues [MouseMove 0 300, TouchMove (-50) 100 True, AnimationFrame 20 21] \<and>
   dragDirection (run itemRemove (dragging itemRemove 200 RIGHT 20)
     [MouseMove 0 300, TouchMove (-50) 100 True, AnimationFrame 20 21]) = RIGHT"
proof -
  have h: "dragDirection (dragging itemRemove 200 RIGHT 20) \<noteq> UNKNOWN"
    by (simp add: dragging_def)
  have d: "dragDirection (dragging itemRemove 200 RIGHT 20) = RIGHT"
    by (simp add: dragging_def)
  from direction_is_sticky [OF h, of "[MouseMove 0 300, TouchMove (-50) 100 True, AnimationFrame 20 21]"
      itemRemove DragEnd]
  show ?thesis using h d by simp
qed

subsection \<open>Events while the item is not being swiped\<close>

lemma isSwiping_cong:
  "dragStartPoint s' = dragStartPoint s \<Longrightarrow> dragDirection s' = dragDirection s \<Longrightarrow>
   isSwiping p s' = isSwiping p s"
  by (simp add: isSwiping_def dragStartedWithinItem_def)

lemma isSwiping_update [simp]:
  "isSwiping p (s\<lparr>calls := c\<rparr>) = isSwiping p s"
  "isSwiping p (s\<lparr>requestedAnimationFrame := r\<rparr>) = isSwiping p s"
  "isSwiping p (s\<lparr>frameCallbacks := hs\<rparr>) = isSwiping p s"
  "isSwiping p (s\<lparr>left := f\<rparr>) = isSwiping p s"
  by (simp_all add: isSwiping_def dragStartedWithinItem_def)

lemma isSwiping_dragTo [simp]: "isSwiping p (dragTo s x) = isSwiping p s"
  by (rule isSwiping_cong) simp_all

lemma setDragDirection_quiet:
  "\<not> isSwiping p (setDragDirection p s x y) \<Longrightarrow> calls (setDragDirection p s x y) = calls s"
  by (auto simp: setDragDirection_def Let_def split: if_splits)

lemma runFrameCallbacks_quiet:
  "\<not> isSwiping p s \<Longrightarrow>
   listElement (runFrameCallbacks p now now2 hs s) = listElement s \<and>
   contentLeft (runFrameCallbacks p now now2 hs s) = contentLeft s \<and>
   contentRight (runFrameCallbacks p now now2 hs s) = contentRight s \<and>
   left (runFrameCallbacks p now now2 hs s) = left s \<and>
   calls (runFrameCallbacks p now now2 hs s) = calls s"
proof (induction hs arbitrary: s)
  case Nil
  then show ?case by simp
next
  case (Cons h hs)
  have idle: "\<not> isSwiping p (s\<lparr>requestedAnimationFrame := None\<rparr>)"
    using Cons.prems by simp
  then have "updatePosition p now now2 (s\<lparr>requestedAnimationFrame := None\<rparr>) =
             s\<lparr>requestedAnimationFrame := None\<rparr>"
    by (simp add: updatePosition_idle)
  with Cons.IH [OF idle] show ?case by simp
qed

lemma step_quiet:
  assumes "gestureContinues ev" and "\<not> isSwiping p (step p s ev)"
  shows "listElement (step p s ev) = listElement s \<and>
         contentLeft (step p s ev) = contentLeft s \<and>
         contentRight (step p s ev) = contentRight s \<and>
         left (step p s ev) = left s \<and>
         calls (step p s ev) = calls s"
proof (cases ev)
  case (MouseMove x y)
  with assms(2) show ?thesis
    by (auto simp: handleMouseMove_def setDragDirection_quiet split: if_splits)
next
  case (TouchMove x y c)
  with assms(2) show ?thesis
    by (auto simp: handleTouchMove_def setDragDirection_quiet split: if_splits)
next
  case (AnimationFrame now now2)
  have "isSwiping p (animationFrame p now now2 s) = isSwiping p (s\<lparr>frameCallbacks := []\<rparr>)"
    by (rule isSwiping_cong) (simp_all add: animationFrame_def)
  with assms(2) AnimationFrame have "\<not> isSwiping p (s\<lparr>frameCallbacks := []\<rparr>)"
    by simp
  from runFrameCallbacks_quiet [OF this] AnimationFrame show ?thesis
    by (simp add: animationFrame_def)
qed (use assms(1) in simp_all)

lemma blocked_not_swiping: "blockSwipe p \<Longrightarrow> \<not> isSwiping p s"
  by (simp add: isSwiping_def)

lemma handleDragEnd_quiet:
  "\<not> isSwiping p s \<Longrightarrow> handleDragEnd p s = Inr (playReturnAnimation (resetState s))"
  by (simp add: handleDragEnd_def finishDrag_def)

lemma step_blocked_calls:
  assumes "blockSwipe p"
  shows "calls (step p s ev) = calls s"
proof (cases "gestureContinues ev")
  case True
  with step_quiet [OF True blocked_not_swiping [OF assms]] show ?thesis by simp
next
  case False
  then show ?thesis
    by (cases ev)
       (simp_all add: settle_def handleDragStart_def resetState_def
          handleDragEnd_quiet [OF blocked_not_swiping [OF assms]] playReturnAnimation_def)
qed

lemma run_blocked_calls:
  "blockSwipe p \<Longrightarrow> calls (run p s evs) = calls s"
  unfolding run_def
  by (induction evs arbitrary: s) (simp_all add: step_blocked_calls)

lemma run_blocked_dom:
  "blockSwipe p \<Longrightarrow> list_all gestureContinues evs \<Longrightarrow>
   listElement (run p s evs) = listElement s \<and>
   contentLeft (run p s evs) = contentLeft s \<and>
   contentRight (run p s evs) = contentRight s \<and>
   left (run p s evs) = left s"
  unfolding run_def
proof (induction evs arbitrary: s)
  case Nil
  then show ?case by simp
next
  case (Cons ev evs)
  from Cons.prems have g: "gestureContinues ev" and gs: "list_all gestureContinues evs"
    by simp_all
  from step_quiet [OF g blocked_not_swiping [OF Cons.prems(1)], of s]
    Cons.IH [OF Cons.prems(1) gs, of "step p s ev"]
  show ?case by simp
qed

lemma run_never_horizontal:
  "neverHorizontal p s evs \<Longrightarrow>
   listElement (run p s evs) = listElement s \<and>
   contentLeft (run p s evs) = contentLeft s \<and>
   contentRight (run p s evs) = contentRight s \<and>
   left (run p s evs) = left s \<and>
   calls (run p s evs) = calls s \<and>
   \<not> isSwiping p (run p s evs)"
  unfolding run_def
proof (induction evs arbitrary: s)
  case Nil
  then show ?case by (auto simp: isSwiping_def)
next
  case (Cons ev evs)
  from Cons.prems have g: "gestureContinues ev" and n: "neverHorizontal p (step p s ev) evs"
    by simp_all
  from n have "\<not> isSwiping p (step p s ev)"
    by (cases evs) (auto simp: isSwiping_def)
  from step_quiet [OF g this] Cons.IH [OF n] show ?case by simp
qed

subsection \<open>Evaluating the examples\<close>

lemma octant_right: "0 < dx \<Longrightarrow> octant (sx + dx) sy sx sy = 0"
  by (simp add: octant_def Math_atan2_def Math_round_def js_rem_def)

lemma octant_left: "dx < 0 \<Longrightarrow> octant (sx + dx) sy sx sy = 4"
  by (simp add: octant_def Math_atan2_def Math_round_def js_rem_def)

lemma octant_down: "0 < dy \<Longrightarrow> octant sx (sy + dy) sx sy = 2"
  by (simp add: octant_def Math_atan2_def Math_round_def js_rem_def)

lemmas handler_defs =
  settle_def handleDragStart_def resetState_def scheduleUpdatePosition_def
  handleMouseMove_def handleTouchMove_def dragStartedWithinItem_def setDragDirection_def
  classify_def isSwiping_def dragHorizontalDirectionThreshold_def
  dragVerticalDirectionThreshold_def dragTo_def handleDragEnd_def triggerAction_def
  triggerRatio_def finishDrag_def notifySwipeEnd_def handleSwipedLeft_def
  handleSwipedRight_def playActionAnimation_def playRemoveAnimation_def
  playReturnAnimation_def animationFrame_def updatePosition_def clampLeft_def
  contentToShow_def onlyLeftContent_def onlyRightContent_def panel_def setTransform_def
  reportProgress_def swipeDistancePercent_whole showOpacity_def fullOpacity_def setOpacity_def
  hundredths_opacityOf toFixed2_def Math_round_def FPS_INTERVAL_def

lemma mounted_itemStay:
  "mounted itemStay 200 =
     \<lparr>contentLeft = Some (element class_content_left 200), contentRight = None,
      listElement = Some (element class_content 200),
      requestedAnimationFrame = None, startTime = None, previousSwipeDistancePercent = 0,
      dragStartPoint = (-1, -1), dragDirection = UNKNOWN, left = 0, frameCallbacks = [],
      nextHandle = 1, calls = []\<rparr>"
  by (simp add: mounted_def itemStay_def)

lemma within_thresholds_step:
  "step itemRemove (dragging itemRemove 200 UNKNOWN 0) (MouseMove 103 104) =
   dragging itemRemove 200 UNKNOWN 0"
  by (simp add: dragging_def handleMouseMove_def dragStartedWithinItem_def setDragDirection_def
      dragHorizontalDirectionThreshold_def dragVerticalDirectionThreshold_def itemRemove_def
      isSwiping_def)

lemma downwards_step:
  "step itemRemove (dragging itemRemove 200 UNKNOWN 0) (MouseMove 100 130) =
   dragging itemRemove 200 DOWN 0"
  using octant_down [of 30 100 100]
  by (simp add: dragging_def handleMouseMove_def dragStartedWithinItem_def setDragDirection_def
      classify_def dragHorizontalDirectionThreshold_def dragVerticalDirectionThreshold_def
      itemRemove_def isSwiping_def)

lemma downwards_frame:
  "dragDirection (step itemRemove (dragging itemRemove 200 DOWN 0) (AnimationFrame 20 21)) = DOWN"
  by (simp add: animationFrame_def dragging_def)

lemma vertical_gesture:
  "neverHorizontal itemRemove (dragging itemRemove 200 UNKNOWN 0)
     [MouseMove 103 104, MouseMove 100 130, AnimationFrame 20 21]"
  by (simp only: neverHorizontal.simps within_thresholds_step downwards_step downwards_frame
        gestureContinues.simps)
     (simp add: dragging_def)

subsection \<open>Blocked items\<close>

text \<open>
  C8. With \<^verbatim>\<open>blockSwipe\<close> set, \<^verbatim>\<open>isSwiping()\<close> is false in every state, no sequence of
  events at all invokes \<^verbatim>\<open>onSwipeStart\<close>, \<^verbatim>\<open>onSwipeProgress\<close>, \<^verbatim>\<open>onSwipeEnd\<close> or an
  action (nothing is appended to \<open>calls\<close>), and no sequence of move events and animation
  frames changes the offset, the transform or any other field of the three elements.
\<close>

theorem blockSwipe_disables_swiping:
  assumes "blockSwipe p"
  shows "\<not> isSwiping p s \<and>
         \<not> isSwiping p (run p s evs) \<and>
         calls (run p s evs) = calls s \<and>
         (list_all gestureContinues evs \<longrightarrow>
            listElement (run p s evs) = listElement s \<and>
            contentLeft (run p s evs) = contentLeft s \<and>
            contentRight (run p s evs) = contentRight s \<and>
            left (run p s evs) = left s)"
  using assms by (simp add: blocked_not_swiping run_blocked_calls run_blocked_dom)

theorem blockSwipe_disables_swiping_witness:
  "blockSwipe itemBlocked \<and>
   list_all gestureContinues [MouseMove 150 100, TouchMove 300 100 True, AnimationFrame 20 21] \<and>
   calls (run itemBlocked (dragging itemBlocked 200 UNKNOWN 0)
            [MouseMove 150 100, TouchMove 300 100 True, AnimationFrame 20 21]) = [] \<and>
   listElement (run itemBlocked (dragging itemBlocked 200 UNKNOWN 0)
            [MouseMove 150 100, TouchMove 300 100 True, AnimationFrame 20 21]) =
     Some (element class_content 200)"
proof -
  have b: "blockSwipe itemBlocked"
    by (simp add: itemBlocked_def)
  from blockSwipe_disables_swiping [OF b, of "dragging itemBlocked 200 UNKNOWN 0"
      "[MouseMove 150 100, TouchMove 300 100 True, AnimationFrame 20 21]"]
  show ?thesis using b by (simp add: dragging_def mounted_def)
qed

subsection \<open>Gestures that are not horizontal\<close>

text \<open>
  C6, as the code has it. While the direction of a gesture is never \<open>LEFT\<close> or \<open>RIGHT\<close>, its
  moves and animation frames change no element (no transform, no opacity), leave the offset
  alone and invoke nothing. On release no action and no callback is invoked and the state is
  reset, but the return animation is applied all the same: the list element gets the
  return class and \<^verbatim>\<open>translateX(0px)\<close>, and both panels that exist get opacity 0.
\<close>

theorem vertical_gesture_ends_with_return:
  assumes "neverHorizontal p s evs"
  shows "listElement (run p s evs) = listElement s \<and>
         contentLeft (run p s evs) = contentLeft s \<and>
         contentRight (run p s evs) = contentRight s \<and>
         left (run p s evs) = left s \<and>
         calls (run p s evs) = calls s \<and>
         handleDragEnd p (run p s evs) = Inr (playReturnAnimation (resetState (run p s evs))) \<and>
         calls (step p (run p s evs) DragEnd) = calls s \<and>
         dragDirection (step p (run p s evs) DragEnd) = UNKNOWN \<and>
         map_option transform (listElement (step p (run p s evs) DragEnd)) =
           map_option (\<lambda>e. TranslateX 0) (listElement s) \<and>
         map_option opacity (contentLeft (step p (run p s evs) DragEnd)) =
           map_option (\<lambda>e. ''0'') (contentLeft s) \<and>
         map_option opacity (contentRight (step p (run p s evs) DragEnd)) =
           map_option (\<lambda>e. ''0'') (contentRight s)"
proof -
  from run_never_horizontal [OF assms]
  have dom: "listElement (run p s evs) = listElement s"
      "contentLeft (run p s evs) = contentLeft s"
      "contentRight (run p s evs) = contentRight s"
      "left (run p s evs) = left s"
      "calls (run p s evs) = calls s"
    and idle: "\<not> isSwiping p (run p s evs)"
    by simp_all
  have "step p (run p s evs) DragEnd = playReturnAnimation (resetState (run p s evs))"
    by (simp add: settle_def handleDragEnd_quiet [OF idle])
  with dom handleDragEnd_quiet [OF idle] show ?thesis
    by (simp add: playReturnAnimation_def resetState_def option.map_comp comp_def)
qed

theorem vertical_gesture_ends_with_return_witness:
  "neverHorizontal itemRemove (dragging itemRemove 200 UNKNOWN 0)
     [MouseMove 103 104, MouseMove 100 130, AnimationFrame 20 21] \<and>
   calls (step itemRemove (run itemRemove (dragging itemRemove 200 UNKNOWN 0)
     [MouseMove 103 104, MouseMove 100 130, AnimationFrame 20 21]) DragEnd) = [] \<and>
   map_option transform (listElement (step itemRemove (run itemRemove
     (dragging itemRemove 200 UNKNOWN 0)
     [MouseMove 103 104, MouseMove 100 130, AnimationFrame 20 21]) DragEnd)) =
     Some (TranslateX 0)"
proof -
  have c: "calls (dragging itemRemove 200 UNKNOWN 0) = []"
    and l: "listElement (dragging itemRemove 200 UNKNOWN 0) = Some (element class_content 200)"
    by (simp_all add: dragging_def mounted_def)
  from vertical_gesture_ends_with_return [OF vertical_gesture]
  show ?thesis using vertical_gesture c l by (simp del: step.simps)
qed

text \<open>
  C6 as stated fails at the release. The item of \<open>itemStay\<close> is swiped left past the
  threshold and stays where it was dragged, at \<^verbatim>\<open>translateX(-150px)\<close>; a press and release
  without any move, a gesture whose direction is \<open>UNKNOWN\<close> throughout, then moves it back
  to \<^verbatim>\<open>translateX(0px)\<close> and sets the opacity of the panel.
\<close>

theorem tap_plays_return_animation:
  "dragDirection (run itemStay (mounted itemStay 200)
     [DragStart 300 100 0, MouseMove 280 100, MouseMove 150 100, AnimationFrame 20 21,
      DragEnd, DragStart 150 100 1000]) = UNKNOWN \<and>
   map_option transform (listElement (run itemStay (mounted itemStay 200)
     [DragStart 300 100 0, MouseMove 280 100, MouseMove 150 100, AnimationFrame 20 21,
      DragEnd, DragStart 150 100 1000])) = Some (TranslateX (-150)) \<and>
   map_option opacity (contentLeft (run itemStay (mounted itemStay 200)
     [DragStart 300 100 0, MouseMove 280 100, MouseMove 150 100, AnimationFrame 20 21,
      DragEnd, DragStart 150 100 1000])) = Some ''1'' \<and>
   map_option transform (listElement (run itemStay (mounted itemStay 200)
     [DragStart 300 100 0, MouseMove 280 100, MouseMove 150 100, AnimationFrame 20 21,
      DragEnd, DragStart 150 100 1000, DragEnd])) = Some (TranslateX 0) \<and>
   map_option opacity (contentLeft (run itemStay (mounted itemStay 200)
     [DragStart 300 100 0, MouseMove 280 100, MouseMove 150 100, AnimationFrame 20 21,
      DragEnd, DragStart 150 100 1000, DragEnd])) = Some ''0''"
  unfolding run_def foldl.simps mounted_itemStay
  using octant_left [of "-20" 300 100]
  by (simp add: handler_defs itemStay_def element_def)

lemma mounted_itemOnlyRight:
  "mounted itemOnlyRight 200 =
     \<lparr>contentLeft = None, contentRight = Some (element class_content_right 200),
      listElement = Some (element class_content 200),
      requestedAnimationFrame = None, startTime = None, previousSwipeDistancePercent = 0,
      dragStartPoint = (-1, -1), dragDirection = UNKNOWN, left = 0, frameCallbacks = [],
      nextHandle = 1, calls = []\<rparr>"
  by (simp add: mounted_def itemOnlyRight_def)

lemma draggedBack_state:
  "draggedBack x =
     \<lparr>contentLeft = None, contentRight = Some (element class_content_right 200),
      listElement = Some (element class_content 200),
      requestedAnimationFrame = Some 1, startTime = Some 0, previousSwipeDistancePercent = 0,
      dragStartPoint = (100, 100), dragDirection = RIGHT, left = x - 100, frameCallbacks = [1],
      nextHandle = 2,
      calls = [OnSwipeStart, StopPropagation, PreventDefault, StopPropagation, PreventDefault]\<rparr>"
  unfolding draggedBack_def run_def foldl.simps mounted_itemOnlyRight
  using octant_right [of 20 100 100]
  by (simp add: handler_defs itemOnlyRight_def element_def)

subsection \<open>The end of a gesture\<close>

text \<open>
  C9. The claim that \<^verbatim>\<open>handleDragEnd\<close> never reads \<^verbatim>\<open>actionAnimation\<close> of an absent
  \<^verbatim>\<open>swipeLeft\<close> does not hold of the code: the branch is chosen by the sign of the offset,
  not by the direction. With a right action only, a gesture classified \<open>RIGHT\<close> that moves
  to 150 pixels left of its start and is released there throws a \<^verbatim>\<open>TypeError\<close>; nothing is
  reset, and the state after the event is the state before it.
\<close>

theorem dragEnd_throws_without_swipeLeft:
  "swipeLeft itemOnlyRight = None \<and>
   isSwiping itemOnlyRight (draggedBack (-50)) \<and>
   dragDirection (draggedBack (-50)) = RIGHT \<and>
   left (draggedBack (-50)) = -150 \<and>
   handleDragEnd itemOnlyRight (draggedBack (-50)) = Inl (TypeError, draggedBack (-50)) \<and>
   step itemOnlyRight (draggedBack (-50)) DragEnd = draggedBack (-50)"
  unfolding draggedBack_state
  by (simp add: settle_def handleDragEnd_def triggerAction_def
        triggerRatio_def isSwiping_def dragStartedWithinItem_def element_def itemOnlyRight_def)

text \<open>
  C1. The claim that a release resolves by the two thresholds, and plays the return animation
  when no action triggers, does not hold of the code where the side whose threshold is
  crossed has no action: with a right action only, width 200 and ratio 0.5, a gesture
  classified \<open>RIGHT\<close> that is released at the offset -101, below -100, has no left action
  to trigger; the handler throws a \<^verbatim>\<open>TypeError\<close> where it reads \<^verbatim>\<open>actionAnimation\<close> of
  the absent \<^verbatim>\<open>swipeLeft\<close>, as in the release above, and neither the return animation is
  applied nor the state reset.
\<close>

theorem release_without_left_action:
  "swipeLeft itemOnlyRight = None \<and>
   isSwiping itemOnlyRight (draggedBack (-1)) \<and>
   map_option offsetWidth (listElement (draggedBack (-1))) = Some 200 \<and>
   triggerRatio itemOnlyRight = 1 / 2 \<and>
   left (draggedBack (-1)) = -101 \<and>
   handleDragEnd itemOnlyRight (draggedBack (-1)) = Inl (TypeError, draggedBack (-1)) \<and>
   calls (step itemOnlyRight (draggedBack (-1)) DragEnd) = calls (draggedBack (-1)) \<and>
   elements (step itemOnlyRight (draggedBack (-1)) DragEnd) = elements (draggedBack (-1)) \<and>
   elements (step itemOnlyRight (draggedBack (-1)) DragEnd) \<noteq>
     elements (playReturnAnimation (draggedBack (-1))) \<and>
   dragDirection (step itemOnlyRight (draggedBack (-1)) DragEnd) = RIGHT"
  unfolding draggedBack_state
  by (simp add: settle_def handleDragEnd_def triggerAction_def playReturnAnimation_def
        triggerRatio_def isSwiping_def dragStartedWithinItem_def element_def itemOnlyRight_def
        elements_def)

subsection \<open>The animations\<close>

lemma playActionAnimation_remove:
  "listElement s = Some e \<Longrightarrow>
   map_option transform (listElement (playActionAnimation (Some REMOVE) d s)) =
     Some (TranslateX (real (offsetWidth e) * (if d = LEFT then -1 else 1)))"
  by (simp add: playActionAnimation_def playRemoveAnimation_def)

lemma playActionAnimation_none:
  "playActionAnimation (Some NONE) d s = s"
  by (simp add: playActionAnimation_def)

lemma playActionAnimation_return:
  "listElement s \<noteq> None \<Longrightarrow> k \<noteq> Some REMOVE \<Longrightarrow> k \<noteq> Some NONE \<Longrightarrow>
   playActionAnimation k d s = playReturnAnimation s"
  by (cases k) (auto simp: playActionAnimation_def split: ActionAnimations.split)

lemma playReturnAnimation_styles:
  "map_option transform (listElement (playReturnAnimation s)) =
     map_option (\<lambda>e. TranslateX 0) (listElement s)"
  "map_option opacity (contentLeft (playReturnAnimation s)) =
     map_option (\<lambda>e. ''0'') (contentLeft s)"
  "map_option opacity (contentRight (playReturnAnimation s)) =
     map_option (\<lambda>e. ''0'') (contentRight s)"
  by (simp_all add: playReturnAnimation_def option.map_comp comp_def)

lemma resetState_frame [simp]:
  "contentLeft (resetState s) = contentLeft s"
  "contentRight (resetState s) = contentRight s"
  "listElement (resetState s) = listElement s"
  "requestedAnimationFrame (resetState s) = requestedAnimationFrame s"
  "startTime (resetState s) = startTime s"
  "frameCallbacks (resetState s) = frameCallbacks s"
  "nextHandle (resetState s) = nextHandle s"
  "calls (resetState s) = calls s"
  by (simp_all add: resetState_def)

lemma elements_resetState [simp]: "elements (resetState s) = elements s"
  by (simp add: elements_def resetState_def)

lemma elements_calls [simp]: "elements (s\<lparr>calls := c\<rparr>) = elements s"
  by (simp add: elements_def)

lemma playReturnAnimation_resetState:
  "playReturnAnimation (resetState s) = resetState (playReturnAnimation s)"
  by (simp add: playReturnAnimation_def resetState_def)

lemma playReturnAnimation_calls:
  "playReturnAnimation (s\<lparr>calls := c\<rparr>) = (playReturnAnimation s)\<lparr>calls := c\<rparr>"
  "calls (playReturnAnimation s) = calls s"
  by (simp_all add: playReturnAnimation_def)

lemma playActionAnimation_calls [simp]:
  "calls (playActionAnimation k d s) = calls s"
  by (simp add: playActionAnimation_def playRemoveAnimation_def playReturnAnimation_def
      split: option.split ActionAnimations.split)

text \<open>
  Where the side whose threshold is crossed has an action with a callback, a release while
  the item is being swiped resolves by the thresholds. With the list element \<open>e\<close> of width
  \<open>w\<close>, ratio \<open>t\<close> and offset \<open>f\<close>: if \<open>f < -(w t)\<close> the left action is invoked once and its
  animation is applied; else if \<open>f > w t\<close> the right action is invoked once and its animation
  is applied; else nothing but \<^verbatim>\<open>onSwipeEnd\<close> is invoked and the return animation is
  applied. The remove animation translates to \<open>-w\<close> or \<open>w\<close>, the animation \<open>NONE\<close> changes
  nothing, every other animation is the return animation, which translates to 0 and sets
  the opacity of both panels to 0.
\<close>

lemma release_resolves_by_threshold:
  assumes sw: "isSwiping p s" and le: "listElement s = Some e"
    and L: "left s < - (real (offsetWidth e) * triggerRatio p) \<Longrightarrow>
              swipeLeft p = Some aL \<and> action aL"
    and R: "\<not> left s < - (real (offsetWidth e) * triggerRatio p) \<Longrightarrow>
            left s > real (offsetWidth e) * triggerRatio p \<Longrightarrow>
              swipeRight p = Some aR \<and> action aR"
  shows "(\<exists>s'. handleDragEnd p s = Inr s' \<and>
           (if left s < - (real (offsetWidth e) * triggerRatio p) then
              calls s' = calls s @ [SwipeLeftAction] @ (if onSwipeEnd p then [OnSwipeEnd] else []) \<and>
              elements s' = elements (playActionAnimation (actionAnimation aL) LEFT s)
            else if left s > real (offsetWidth e) * triggerRatio p then
              calls s' = calls s @ [SwipeRightAction] @ (if onSwipeEnd p then [OnSwipeEnd] else []) \<and>
              elements s' = elements (playActionAnimation (actionAnimation aR) RIGHT s)
            else
              calls s' = calls s @ (if onSwipeEnd p then [OnSwipeEnd] else []) \<and>
              elements s' = elements (playReturnAnimation s))) \<and>
         (\<forall>d. map_option transform (listElement (playActionAnimation (Some REMOVE) d s)) =
           Some (TranslateX (real (offsetWidth e) * (if d = LEFT then -1 else 1)))) \<and>
         (\<forall>d. playActionAnimation (Some NONE) d s = s) \<and>
         (\<forall>k d. k \<noteq> Some REMOVE \<and> k \<noteq> Some NONE \<longrightarrow>
           playActionAnimation k d s = playReturnAnimation s) \<and>
         map_option transform (listElement (playReturnAnimation s)) = Some (TranslateX 0) \<and>
         map_option opacity (contentLeft (playReturnAnimation s)) =
           map_option (\<lambda>e. ''0'') (contentLeft s) \<and>
         map_option opacity (contentRight (playReturnAnimation s)) =
           map_option (\<lambda>e. ''0'') (contentRight s)"
proof -
  have "\<exists>s'. handleDragEnd p s = Inr s' \<and>
           (if left s < - (real (offsetWidth e) * triggerRatio p) then
              calls s' = calls s @ [SwipeLeftAction] @ (if onSwipeEnd p then [OnSwipeEnd] else []) \<and>
              elements s' = elements (playActionAnimation (actionAnimation aL) LEFT s)
            else if left s > real (offsetWidth e) * triggerRatio p then
              calls s' = calls s @ [SwipeRightAction] @ (if onSwipeEnd p then [OnSwipeEnd] else []) \<and>
              elements s' = elements (playActionAnimation (actionAnimation aR) RIGHT s)
            else
              calls s' = calls s @ (if onSwipeEnd p then [OnSwipeEnd] else []) \<and>
              elements s' = elements (playReturnAnimation s))"
  proof (cases "left s < - (real (offsetWidth e) * triggerRatio p)")
    case True
    with L have "swipeLeft p = Some aL" "action aL" by simp_all
    with True sw le show ?thesis
      by (simp add: handleDragEnd_def triggerAction_def finishDrag_def notifySwipeEnd_def
          handleSwipedLeft_def)
  next
    case False
    show ?thesis
    proof (cases "left s > real (offsetWidth e) * triggerRatio p")
      case True
      with R False have "swipeRight p = Some aR" "action aR" by simp_all
      with True False sw le show ?thesis
        by (simp add: handleDragEnd_def triggerAction_def finishDrag_def notifySwipeEnd_def
            handleSwipedRight_def)
    next
      case nr: False
      with False sw le show ?thesis
        by (simp add: handleDragEnd_def triggerAction_def finishDrag_def notifySwipeEnd_def
            playReturnAnimation_resetState playReturnAnimation_calls)
    qed
  qed
  moreover have "\<forall>d. map_option transform (listElement (playActionAnimation (Some REMOVE) d s)) =
           Some (TranslateX (real (offsetWidth e) * (if d = LEFT then -1 else 1)))"
    using playActionAnimation_remove [OF le] by blast
  moreover have "\<forall>k d. k \<noteq> Some REMOVE \<and> k \<noteq> Some NONE \<longrightarrow>
           playActionAnimation k d s = playReturnAnimation s"
    using le by (simp add: playActionAnimation_return)
  ultimately show ?thesis
    using le by (simp add: playActionAnimation_none playReturnAnimation_styles)
qed

lemma release_resolves_by_threshold_example:
  "(\<exists>s'. handleDragEnd itemRemove (dragging itemRemove 200 LEFT (-101)) = Inr s' \<and>
      calls s' = [SwipeLeftAction, OnSwipeEnd] \<and>
      map_option transform (listElement s') = Some (TranslateX (-200))) \<and>
   (\<exists>s'. handleDragEnd itemRemove (dragging itemRemove 200 LEFT (-99)) = Inr s' \<and>
      calls s' = [OnSwipeEnd] \<and>
      map_option transform (listElement s') = Some (TranslateX 0) \<and>
      map_option opacity (contentLeft s') = Some ''0'' \<and>
      map_option opacity (contentRight s') = Some ''0'')"
proof -
  let ?e = "element class_content 200"
  let ?aL = "\<lparr>action = True, actionAnimation = Some REMOVE\<rparr>"
  let ?aR = "\<lparr>action = True, actionAnimation = None\<rparr>"
  let ?far = "dragging itemRemove 200 LEFT (-101)"
  let ?near = "dragging itemRemove 200 LEFT (-99)"
  have L: "swipeLeft itemRemove = Some ?aL \<and> action ?aL"
    and R: "swipeRight itemRemove = Some ?aR \<and> action ?aR"
    and p: "triggerRatio itemRemove = 1 / 2" "onSwipeEnd itemRemove"
    by (simp_all add: itemRemove_def triggerRatio_def)
  have s: "isSwiping itemRemove (dragging itemRemove 200 LEFT f)"
      "listElement (dragging itemRemove 200 LEFT f) = Some ?e"
      "left (dragging itemRemove 200 LEFT f) = f"
      "calls (dragging itemRemove 200 LEFT f) = []"
      "\<exists>c. contentLeft (dragging itemRemove 200 LEFT f) = Some c"
      "\<exists>c. contentRight (dragging itemRemove 200 LEFT f) = Some c" for f
    by (simp_all add: dragging_def mounted_def isSwiping_def dragStartedWithinItem_def
        itemRemove_def)
  have w: "real (offsetWidth ?e) = 200"
    by (simp add: element_def)
  note far = release_resolves_by_threshold [of itemRemove ?far ?e ?aL ?aR, OF s(1) s(2) L R]
  note near = release_resolves_by_threshold [of itemRemove ?near ?e ?aL ?aR, OF s(1) s(2) L R]
  from far obtain s1 where s1: "handleDragEnd itemRemove ?far = Inr s1"
      "calls s1 = [SwipeLeftAction, OnSwipeEnd]"
      "elements s1 = elements (playActionAnimation (Some REMOVE) LEFT ?far)"
    by (auto simp: p s(3,4) w)
  from far have "map_option transform (listElement (playActionAnimation (Some REMOVE) LEFT ?far)) =
      Some (TranslateX (real (offsetWidth ?e) * (if LEFT = LEFT then -1 else 1)))"
    by blast
  with s1(3) have t1: "map_option transform (listElement s1) = Some (TranslateX (-200))"
    by (simp add: elements_def w)
  from near obtain s2 where s2: "handleDragEnd itemRemove ?near = Inr s2"
      "calls s2 = [OnSwipeEnd]"
      "elements s2 = elements (playReturnAnimation ?near)"
    by (auto simp: p s(3,4) w)
  from near have "map_option transform (listElement (playReturnAnimation ?near)) = Some (TranslateX 0)"
      "map_option opacity (contentLeft (playReturnAnimation ?near)) =
         map_option (\<lambda>e. ''0'') (contentLeft ?near)"
      "map_option opacity (contentRight (playReturnAnimation ?near)) =
         map_option (\<lambda>e. ''0'') (contentRight ?near)"
    by blast+
  with s2(3) s(5,6) [of "-99"] have t2: "map_option transform (listElement s2) = Some (TranslateX 0)"
      "map_option opacity (contentLeft s2) = Some ''0''"
      "map_option opacity (contentRight s2) = Some ''0''"
    by (auto simp: elements_def)
  from s1(1,2) t1 s2(1,2) t2 show ?thesis by blast
qed

subsection \<open>The refresh\<close>

lemma updatePosition_executed:
  assumes "FPS_INTERVAL < now - (case startTime s of None \<Rightarrow> 0 | Some t \<Rightarrow> t)"
    and "isSwiping p s" and "panel (clampLeft s) (contentToShow s) \<noteq> None"
  shows "updatePosition p now now2 s =
     (fullOpacity (contentToShow s)
       (showOpacity (contentToShow s)
         (reportProgress p (setTransform (clampLeft s)))))\<lparr>startTime := Some now2\<rparr>"
  using assms by (auto simp: updatePosition_def)

lemma contentToShow_negative:
  "left s < 0 \<Longrightarrow> contentLeft s \<noteq> None \<Longrightarrow>
   contentToShow s = ContentLeft \<and> clampLeft s = s"
  by (auto simp: contentToShow_def clampLeft_def onlyLeftContent_def onlyRightContent_def)

lemma contentToShow_nonnegative:
  "0 \<le> left s \<Longrightarrow> contentRight s \<noteq> None \<Longrightarrow>
   contentToShow s = ContentRight \<and> clampLeft s = s"
  by (auto simp: contentToShow_def clampLeft_def onlyLeftContent_def onlyRightContent_def)



lemma panel_frame [simp]:
  "panel (setTransform s) c = panel s c"
  "panel (reportProgress p s) c = panel s c"
  "panel (s\<lparr>startTime := t\<rparr>) c = panel s c"
  "panel (s\<lparr>left := f\<rparr>) c = panel s c"
  by (simp_all add: panel_def split: Side.split)

lemma shown_opacity_left:
  assumes "contentLeft s \<noteq> None" and "left s < 0"
  shows "map_option opacity (contentLeft (fullOpacity ContentLeft (showOpacity ContentLeft s))) =
     Some (if hundredths (opacityOf (left s)) < 100 then toFixed2 (opacityOf (left s)) else ''1'')"
  using assms
  by (auto simp: fullOpacity_def showOpacity_def setOpacity_def panel_def)

lemma shown_opacity_right:
  assumes "contentRight s \<noteq> None" and "0 \<le> left s"
  shows "map_option opacity (contentRight (fullOpacity ContentRight (showOpacity ContentRight s))) =
     Some (if hundredths (opacityOf (left s)) < 100 then toFixed2 (opacityOf (left s)) else ''1'')"
  using assms
  by (auto simp: fullOpacity_def showOpacity_def setOpacity_def panel_def)

lemma updatePosition_executed_fields:
  assumes "FPS_INTERVAL < now - (case startTime s of None \<Rightarrow> 0 | Some t \<Rightarrow> t)"
    and "isSwiping p s" and "panel (clampLeft s) (contentToShow s) \<noteq> None"
  shows "left (updatePosition p now now2 s) = left (clampLeft s)"
    and "listElement (updatePosition p now now2 s) = listElement (setTransform (clampLeft s))"
    and "contentLeft (updatePosition p now now2 s) =
          contentLeft (fullOpacity (contentToShow s) (showOpacity (contentToShow s)
            (reportProgress p (setTransform (clampLeft s)))))"
    and "contentRight (updatePosition p now now2 s) =
          contentRight (fullOpacity (contentToShow s) (showOpacity (contentToShow s)
            (reportProgress p (setTransform (clampLeft s)))))"
    and "startTime (updatePosition p now now2 s) = Some now2"
  unfolding updatePosition_executed [OF assms] by simp_all


lemma setTransform_listElement:
  "map_option transform (listElement (setTransform s)) =
   map_option (\<lambda>e. TranslateX (left s)) (listElement s)"
  by (simp add: setTransform_def option.map_comp comp_def)




lemma dragging_swiping:
  "d = LEFT \<or> d = RIGHT \<Longrightarrow> \<not> blockSwipe p \<Longrightarrow> isSwiping p (dragging p w d f)"
  by (auto simp: isSwiping_def dragStartedWithinItem_def dragging_def)

lemma dragging_due:
  "FPS_INTERVAL < 20 - (case startTime (dragging p w d f) of None \<Rightarrow> 0 | Some t \<Rightarrow> t)"
  by (simp add: dragging_def FPS_INTERVAL_def)

subsection \<open>Progress\<close>

lemma progressValues_append [simp]:
  "progressValues (xs @ ys) = progressValues xs @ progressValues ys"
  by (induction xs rule: progressValues.induct) simp_all







lemma updatePosition_calls:
  "calls (updatePosition p now now2 s) = calls s \<or>
   calls (updatePosition p now now2 s) = calls (reportProgress p (setTransform (clampLeft s)))"
  by (simp add: updatePosition_def)












lemma mounted_itemRemove:
  "mounted itemRemove 200 =
     \<lparr>contentLeft = Some (element class_content_left 200),
      contentRight = Some (element class_content_right 200),
      listElement = Some (element class_content 200),
      requestedAnimationFrame = None, startTime = None, previousSwipeDistancePercent = 0,
      dragStartPoint = (-1, -1), dragDirection = UNKNOWN, left = 0, frameCallbacks = [],
      nextHandle = 1, calls = []\<rparr>"
  by (simp add: mounted_def itemRemove_def)


subsection \<open>The panel that is revealed\<close>

lemma hidden_panel:
  "contentRight (fullOpacity ContentLeft (showOpacity ContentLeft t)) = contentRight t \<or>
   contentRight (fullOpacity ContentLeft (showOpacity ContentLeft t)) =
     map_option (\<lambda>e. e\<lparr>opacity := ''0''\<rparr>) (contentRight t)"
  "contentLeft (fullOpacity ContentRight (showOpacity ContentRight t)) = contentLeft t \<or>
   contentLeft (fullOpacity ContentRight (showOpacity ContentRight t)) =
     map_option (\<lambda>e. e\<lparr>opacity := ''0''\<rparr>) (contentLeft t)"
  by (simp_all add: fullOpacity_def showOpacity_def setOpacity_def)

lemma toFixed2_whole:
  assumes "\<bar>k\<bar> < 100"
  shows "toFixed2 (opacityOf (of_int k)) =
     ''0.'' @ [''0123456789'' ! nat (\<bar>k\<bar> div 10), ''0123456789'' ! nat (\<bar>k\<bar> mod 10)]"
proof -
  from assms have "\<bar>k\<bar> < 2 ^ 50"
    by simp
  note h = hundredths_whole [OF this]
  from assms have "nat \<bar>k\<bar> div 100 = 0" "nat \<bar>k\<bar> mod 100 = nat \<bar>k\<bar>"
    by simp_all
  moreover have "nat \<bar>k\<bar> div 10 = nat (\<bar>k\<bar> div 10)" "nat \<bar>k\<bar> mod 10 = nat (\<bar>k\<bar> mod 10)"
    by (simp_all add: nat_div_distrib nat_mod_distrib)
  ultimately show ?thesis
    by (simp add: toFixed2_def h)
qed

lemma whole_opacity:
  "(if hundredths (opacityOf (of_int k)) < 100 then toFixed2 (opacityOf (of_int k)) else ''1'') =
   (if \<bar>k\<bar> < 100
    then ''0.'' @ [''0123456789'' ! nat (\<bar>k\<bar> div 10), ''0123456789'' ! nat (\<bar>k\<bar> mod 10)]
    else ''1'')"
proof (cases "\<bar>k\<bar> < 100")
  case True
  then have "\<bar>k\<bar> < 2 ^ 50"
    by simp
  from hundredths_whole [OF this] True have "hundredths (opacityOf (of_int k)) < 100"
    by simp
  with True show ?thesis
    by (simp only: toFixed2_whole if_True)
next
  case False
  then have "100 \<le> \<bar>k\<bar>"
    by simp
  from hundredths_whole_above [OF this] have "\<not> hundredths (opacityOf (of_int k)) < 100"
    by simp
  with False show ?thesis
    by (simp only: if_False)
qed

text \<open>
  C2, amended. In an executed refresh a negative offset reveals the left content panel (the
  one of \<^verbatim>\<open>swipeLeft\<close>) and a non-negative offset the right content panel (the one of
  \<^verbatim>\<open>swipeRight\<close>), whenever that panel exists: it is the panel \<^verbatim>\<open>contentToShow\<close>, the offset
  is not clamped, the list element is translated to the offset, and the other panel is left
  as it is or hidden with opacity 0. The opacity of the revealed panel becomes
  \<^verbatim>\<open>toFixed(2)\<close> of the double \<open>|f| / 100\<close>, or 1 when that is not below 1; at an offset of
  \<open>k\<close> whole pixels this is \<open>|k| / 100\<close> with two decimals, or 1 from 100 pixels.
\<close>

theorem revealed_panel_follows_sign:
  assumes "FPS_INTERVAL < now - (case startTime s of None \<Rightarrow> 0 | Some t \<Rightarrow> t)"
    and "isSwiping p s"
  shows "(left s < 0 \<and> contentLeft s \<noteq> None \<longrightarrow>
            contentToShow s = ContentLeft \<and>
            left (updatePosition p now now2 s) = left s \<and>
            map_option transform (listElement (updatePosition p now now2 s)) =
              map_option (\<lambda>e. TranslateX (left s)) (listElement s) \<and>
            (contentRight (updatePosition p now now2 s) = contentRight s \<or>
             contentRight (updatePosition p now now2 s) =
               map_option (\<lambda>e. e\<lparr>opacity := ''0''\<rparr>) (contentRight s)) \<and>
            map_option opacity (contentLeft (updatePosition p now now2 s)) =
              Some (if hundredths (opacityOf (left s)) < 100 then toFixed2 (opacityOf (left s))
                    else ''1'') \<and>
            (\<forall>k. left s = real_of_int k \<longrightarrow>
               map_option opacity (contentLeft (updatePosition p now now2 s)) =
                 Some (if \<bar>k\<bar> < 100
                       then ''0.'' @ [''0123456789'' ! nat (\<bar>k\<bar> div 10),
                                      ''0123456789'' ! nat (\<bar>k\<bar> mod 10)]
                       else ''1''))) \<and>
         (0 \<le> left s \<and> contentRight s \<noteq> None \<longrightarrow>
            contentToShow s = ContentRight \<and>
            left (updatePosition p now now2 s) = left s \<and>
            map_option transform (listElement (updatePosition p now now2 s)) =
              map_option (\<lambda>e. TranslateX (left s)) (listElement s) \<and>
            (contentLeft (updatePosition p now now2 s) = contentLeft s \<or>
             contentLeft (updatePosition p now now2 s) =
               map_option (\<lambda>e. e\<lparr>opacity := ''0''\<rparr>) (contentLeft s)) \<and>
            map_option opacity (contentRight (updatePosition p now now2 s)) =
              Some (if hundredths (opacityOf (left s)) < 100 then toFixed2 (opacityOf (left s))
                    else ''1'') \<and>
            (\<forall>k. left s = real_of_int k \<longrightarrow>
               map_option opacity (contentRight (updatePosition p now now2 s)) =
                 Some (if \<bar>k\<bar> < 100
                       then ''0.'' @ [''0123456789'' ! nat (\<bar>k\<bar> div 10),
                                      ''0123456789'' ! nat (\<bar>k\<bar> mod 10)]
                       else ''1'')))"
proof (intro conjI impI allI)
  let ?t = "reportProgress p (setTransform s)"
  assume a: "left s < 0 \<and> contentLeft s \<noteq> None"
  with contentToShow_negative [of s]
  have c: "contentToShow s = ContentLeft" and k: "clampLeft s = s" by simp_all
  from a have "panel (clampLeft s) (contentToShow s) \<noteq> None"
    by (simp add: c k panel_def)
  note f = updatePosition_executed_fields [OF assms this, of now2]
  have lt: "left ?t = left s" and cr: "contentRight ?t = contentRight s" by simp_all
  show "contentToShow s = ContentLeft" by (rule c)
  show "left (updatePosition p now now2 s) = left s" by (simp only: f k)
  show "map_option transform (listElement (updatePosition p now now2 s)) =
      map_option (\<lambda>e. TranslateX (left s)) (listElement s)"
    by (simp only: f k setTransform_listElement)
  from hidden_panel(1) [of ?t]
  show "contentRight (updatePosition p now now2 s) = contentRight s \<or>
      contentRight (updatePosition p now now2 s) =
        map_option (\<lambda>e. e\<lparr>opacity := ''0''\<rparr>) (contentRight s)"
    by (simp only: f c k cr)
  from a have "map_option opacity (contentLeft (fullOpacity ContentLeft (showOpacity ContentLeft ?t))) =
     Some (if hundredths (opacityOf (left ?t)) < 100 then toFixed2 (opacityOf (left ?t)) else ''1'')"
    by (intro shown_opacity_left) simp_all
  then show o: "map_option opacity (contentLeft (updatePosition p now now2 s)) =
     Some (if hundredths (opacityOf (left s)) < 100 then toFixed2 (opacityOf (left s)) else ''1'')"
    by (simp only: f c k lt)
  fix z :: int
  assume z: "left s = real_of_int z"
  from o show "map_option opacity (contentLeft (updatePosition p now now2 s)) =
     Some (if \<bar>z\<bar> < 100
           then ''0.'' @ [''0123456789'' ! nat (\<bar>z\<bar> div 10), ''0123456789'' ! nat (\<bar>z\<bar> mod 10)]
           else ''1'')"
    by (simp only: z whole_opacity)
next
  let ?t = "reportProgress p (setTransform s)"
  assume a: "0 \<le> left s \<and> contentRight s \<noteq> None"
  with contentToShow_nonnegative [of s]
  have c: "contentToShow s = ContentRight" and k: "clampLeft s = s" by simp_all
  from a have "panel (clampLeft s) (contentToShow s) \<noteq> None"
    by (simp add: c k panel_def)
  note f = updatePosition_executed_fields [OF assms this, of now2]
  have lt: "left ?t = left s" and cl: "contentLeft ?t = contentLeft s" by simp_all
  show "contentToShow s = ContentRight" by (rule c)
  show "left (updatePosition p now now2 s) = left s" by (simp only: f k)
  show "map_option transform (listElement (updatePosition p now now2 s)) =
      map_option (\<lambda>e. TranslateX (left s)) (listElement s)"
    by (simp only: f k setTransform_listElement)
  from hidden_panel(2) [of ?t]
  show "contentLeft (updatePosition p now now2 s) = contentLeft s \<or>
      contentLeft (updatePosition p now now2 s) =
        map_option (\<lambda>e. e\<lparr>opacity := ''0''\<rparr>) (contentLeft s)"
    by (simp only: f c k cl)
  from a have "map_option opacity (contentRight (fullOpacity ContentRight (showOpacity ContentRight ?t))) =
     Some (if hundredths (opacityOf (left ?t)) < 100 then toFixed2 (opacityOf (left ?t)) else ''1'')"
    by (intro shown_opacity_right) simp_all
  then show o: "map_option opacity (contentRight (updatePosition p now now2 s)) =
     Some (if hundredths (opacityOf (left s)) < 100 then toFixed2 (opacityOf (left s)) else ''1'')"
    by (simp only: f c k lt)
  fix z :: int
  assume z: "left s = real_of_int z"
  from o show "map_option opacity (contentRight (updatePosition p now now2 s)) =
     Some (if \<bar>z\<bar> < 100
           then ''0.'' @ [''0123456789'' ! nat (\<bar>z\<bar> div 10), ''0123456789'' ! nat (\<bar>z\<bar> mod 10)]
           else ''1'')"
    by (simp only: z whole_opacity)
qed

theorem revealed_panel_follows_sign_witness:
  "FPS_INTERVAL < 20 - (case startTime (dragging itemRemove 200 LEFT (-50)) of
                          None \<Rightarrow> 0 | Some t \<Rightarrow> t) \<and>
   isSwiping itemRemove (dragging itemRemove 200 LEFT (-50)) \<and>
   left (dragging itemRemove 200 LEFT (-50)) < 0 \<and>
   left (dragging itemRemove 200 LEFT (-50)) = real_of_int (-50) \<and>
   contentToShow (dragging itemRemove 200 LEFT (-50)) = ContentLeft \<and>
   map_option transform (listElement (updatePosition itemRemove 20 21
      (dragging itemRemove 200 LEFT (-50)))) = Some (TranslateX (-50)) \<and>
   map_option opacity (contentLeft (updatePosition itemRemove 20 21
      (dragging itemRemove 200 LEFT (-50)))) = Some ''0.50'' \<and>
   isSwiping itemRemove (dragging itemRemove 200 RIGHT 150) \<and>
   0 \<le> left (dragging itemRemove 200 RIGHT 150) \<and>
   left (dragging itemRemove 200 RIGHT 150) = real_of_int 150 \<and>
   contentToShow (dragging itemRemove 200 RIGHT 150) = ContentRight \<and>
   map_option opacity (contentRight (updatePosition itemRemove 20 21
      (dragging itemRemove 200 RIGHT 150))) = Some ''1''"
proof -
  let ?s = "dragging itemRemove 200 LEFT (-50)"
  let ?r = "dragging itemRemove 200 RIGHT 150"
  have sw: "isSwiping itemRemove ?s" and swr: "isSwiping itemRemove ?r"
    by (rule dragging_swiping; simp add: itemRemove_def)+
  have r: "0 \<le> left ?r \<and> contentRight ?r \<noteq> None" "left ?r = real_of_int 150"
    by (simp_all add: dragging_def mounted_def itemRemove_def)
  note u = revealed_panel_follows_sign [OF dragging_due swr, of 21]
  from u r(1) have cr: "contentToShow ?r = ContentRight"
    by blast
  from u r have "map_option opacity (contentRight (updatePosition itemRemove 20 21 ?r)) =
       Some (if \<bar>150 :: int\<bar> < 100
             then ''0.'' @ [''0123456789'' ! nat (\<bar>150 :: int\<bar> div 10),
                            ''0123456789'' ! nat (\<bar>150 :: int\<bar> mod 10)]
             else ''1'')"
    by blast
  then have or: "map_option opacity (contentRight (updatePosition itemRemove 20 21 ?r)) = Some ''1''"
    by simp
  have s: "left ?s < 0 \<and> contentLeft ?s \<noteq> None" "left ?s = real_of_int (-50)"
      "map_option (\<lambda>e. TranslateX (left ?s)) (listElement ?s) = Some (TranslateX (-50))"
    by (simp_all add: dragging_def mounted_def itemRemove_def)
  note t = revealed_panel_follows_sign [OF dragging_due sw, of 21]
  from t s(1) have c: "contentToShow ?s = ContentLeft"
    and tr: "map_option transform (listElement (updatePosition itemRemove 20 21 ?s)) =
      map_option (\<lambda>e. TranslateX (left ?s)) (listElement ?s)"
    by blast+
  from t s(1,2) have "map_option opacity (contentLeft (updatePosition itemRemove 20 21 ?s)) =
       Some (if \<bar>- 50 :: int\<bar> < 100
             then ''0.'' @ [''0123456789'' ! nat (\<bar>- 50 :: int\<bar> div 10),
                            ''0123456789'' ! nat (\<bar>- 50 :: int\<bar> mod 10)]
             else ''1'')"
    by blast
  then have o: "map_option opacity (contentLeft (updatePosition itemRemove 20 21 ?s)) = Some ''0.50''"
    by simp
  from tr have tr': "map_option transform (listElement (updatePosition itemRemove 20 21 ?s)) =
      Some (TranslateX (-50))"
    by (simp only: s(3))
  from dragging_due [of itemRemove 200 LEFT "-50"] sw s(1,2) c tr' o swr r cr or show ?thesis
    by blast
qed

text \<open>
  C2 as stated has the panels the wrong way round: with both panels, at the offset -50 the
  refresh reveals the left content panel with opacity 0.50 and hides the right one.
\<close>

theorem negative_offset_reveals_left_panel:
  "left (run itemRemove (mounted itemRemove 200)
     [DragStart 300 100 0, MouseMove 250 100]) = -50 \<and>
   contentToShow (run itemRemove (mounted itemRemove 200)
     [DragStart 300 100 0, MouseMove 250 100]) = ContentLeft \<and>
   contentLeft (run itemRemove (mounted itemRemove 200)
     [DragStart 300 100 0, MouseMove 250 100, AnimationFrame 20 21]) =
     Some ((element class_content_left 200)\<lparr>opacity := ''0.50''\<rparr>) \<and>
   contentRight (run itemRemove (mounted itemRemove 200)
     [DragStart 300 100 0, MouseMove 250 100, AnimationFrame 20 21]) =
     Some ((element class_content_right 200)\<lparr>opacity := ''0''\<rparr>)"
  unfolding run_def foldl.simps mounted_itemRemove
  using octant_left [of "-50" 300 100]
  by (simp add: handler_defs itemRemove_def element_def)










subsection \<open>Scheduling of refreshes\<close>








lemma playReturnAnimation_pending [simp]:
  "requestedAnimationFrame (playReturnAnimation s) = requestedAnimationFrame s"
  "frameCallbacks (playReturnAnimation s) = frameCallbacks s"
  by (simp_all add: playReturnAnimation_def)

lemma playActionAnimation_pending [simp]:
  "requestedAnimationFrame (playActionAnimation k d s) = requestedAnimationFrame s"
  "frameCallbacks (playActionAnimation k d s) = frameCallbacks s"
  by (simp_all add: playActionAnimation_def playRemoveAnimation_def
      split: option.split ActionAnimations.split)


lemma finishDrag_pending [simp]:
  "requestedAnimationFrame (finishDrag r) = requestedAnimationFrame (fst r)"
  "frameCallbacks (finishDrag r) = frameCallbacks (fst r)"
  by (simp_all add: finishDrag_def)

lemma notifySwipeEnd_pending [simp]:
  "requestedAnimationFrame (fst (notifySwipeEnd p r)) = requestedAnimationFrame (fst r)"
  "frameCallbacks (fst (notifySwipeEnd p r)) = frameCallbacks (fst r)"
  by (simp_all add: notifySwipeEnd_def)









lemma cleared_frame [simp]:
  "contentToShow (s\<lparr>frameCallbacks := a, requestedAnimationFrame := b\<rparr>) = contentToShow s"
  "left (clampLeft (s\<lparr>frameCallbacks := a, requestedAnimationFrame := b\<rparr>)) = left (clampLeft s)"
  "panel (clampLeft (s\<lparr>frameCallbacks := a, requestedAnimationFrame := b\<rparr>)) c =
     panel (clampLeft s) c"
  by (simp_all add: contentToShow_def clampLeft_def onlyLeftContent_def onlyRightContent_def
      panel_def Let_def split: Side.split)






end
